theory Spec2Isabelle
  imports Main "HOL-Library.AList"
begin

section \<open>Strings and arrays of the host language\<close>

text \<open>
  Strings are byte lists. \<open>js_split\<close> is \<^verbatim>\<open>String.prototype.split\<close> with a literal,
  non-empty separator (the source only splits on \<^verbatim>\<open>", "\<close> and \<^verbatim>\<open>"#"\<close>): the leftmost
  occurrence of the separator ends the first piece, and the empty string splits into one
  empty piece. \<open>js_join\<close> is \<^verbatim>\<open>Array.prototype.join\<close>.
\<close>

fun js_split :: "string \<Rightarrow> string \<Rightarrow> string list" where
  "js_split sep [] = [[]]"
| "js_split sep (c # cs) =
     (if sep \<noteq> [] \<and> take (length sep) (c # cs) = sep
      then [] # js_split sep (drop (length sep) (c # cs))
      else (let r = js_split sep cs in (c # hd r) # tl r))"

fun js_join :: "string \<Rightarrow> string list \<Rightarrow> string" where
  "js_join sep [] = []"
| "js_join sep [x] = x"
| "js_join sep (x # y # ys) = x @ sep @ js_join sep (y # ys)"

text \<open>
  \<^verbatim>\<open>String.prototype.trim\<close> removes white space and line terminators from both ends.
  A string is the UTF-8 byte list of its text, so each such code point is a byte sequence:
  the six ASCII ones; U+00A0; U+1680; U+2000 to U+200A, U+2028, U+2029 and U+202F;
  U+205F; U+3000; U+FEFF.
\<close>

definition white_space :: "string list" where
  "white_space =
     map (\<lambda>c. [c]) [CHR 0x09, CHR 0x0A, CHR 0x0B, CHR 0x0C, CHR 0x0D, CHR 0x20] @
     [[CHR 0xC2, CHR 0xA0], [CHR 0xE1, CHR 0x9A, CHR 0x80]] @
     map (\<lambda>c. [CHR 0xE2, CHR 0x80, c])
       [CHR 0x80, CHR 0x81, CHR 0x82, CHR 0x83, CHR 0x84, CHR 0x85, CHR 0x86, CHR 0x87,
        CHR 0x88, CHR 0x89, CHR 0x8A, CHR 0xA8, CHR 0xA9, CHR 0xAF] @
     [[CHR 0xE2, CHR 0x81, CHR 0x9F], [CHR 0xE3, CHR 0x80, CHR 0x80],
      [CHR 0xEF, CHR 0xBB, CHR 0xBF]]"

text \<open>The length of the first of the byte sequences \<open>ps\<close> the string starts with, or 0.\<close>

definition space_len :: "string list \<Rightarrow> string \<Rightarrow> nat" where
  "space_len ps s =
     (case find (\<lambda>p. take (length p) s = p) ps of None \<Rightarrow> 0 | Some p \<Rightarrow> length p)"

fun strip_spaces :: "string list \<Rightarrow> string \<Rightarrow> string" where
  "strip_spaces ps [] = []"
| "strip_spaces ps (c # cs) =
     (case space_len ps (c # cs) of
        0 \<Rightarrow> c # cs
      | Suc n \<Rightarrow> strip_spaces ps (drop n cs))"

definition js_trim :: "string \<Rightarrow> string" where
  "js_trim s = rev (strip_spaces (map rev white_space) (rev (strip_spaces white_space s)))"

text \<open>Truthiness of a nullable string: \<^verbatim>\<open>null\<close> and \<^verbatim>\<open>""\<close> are falsy.\<close>

definition truthy :: "string option \<Rightarrow> bool" where
  "truthy x = (case x of None \<Rightarrow> False | Some s \<Rightarrow> s \<noteq> [])"

text \<open>A nullable string inside a template literal: \<^verbatim>\<open>null\<close> prints as \<^verbatim>\<open>null\<close>.\<close>

definition show_nullable :: "string option \<Rightarrow> string" where
  "show_nullable x = (case x of None \<Rightarrow> ''null'' | Some s \<Rightarrow> s)"

section \<open>Data model\<close>

text \<open>
  Modelled from the spec: \<^verbatim>\<open>constants.js\<close> (\<^verbatim>\<open>THREAD_STATUS\<close>, \<^verbatim>\<open>THREAD_MESSAGE_TYPE\<close>) is
  not among the sources; the members are the ones \<^verbatim>\<open>Thread.js\<close> names.
\<close>

datatype thread_status = OPEN | CLOSED | SUSPENDED

datatype message_type = SYSTEM | CHAT | FROM_USER | TO_USER | COMMAND

text \<open>
  Time stamps are milliseconds; the formatting and parsing done by \<^verbatim>\<open>moment\<close> is taken
  as the identity, so a stored time stamp is never the empty string.
\<close>

type_synonym timestamp = int

text \<open>
  \<^verbatim>\<open>staff_role_overrides\<close> holds the JSON text of a flat object from operator id to role
  id. The model keeps the object itself, in insertion order: \<^verbatim>\<open>JSON.parse\<close> of what
  \<^verbatim>\<open>JSON.stringify\<close> wrote is taken as the identity, and keys are operator ids (never
  names of \<^verbatim>\<open>Object.prototype\<close>).
\<close>

type_synonym overrides = "(string \<times> string) list"

text \<open>
  One row of table \<^verbatim>\<open>threads\<close>. A \<^verbatim>\<open>Thread\<close> object is built from such a row
  (\<^verbatim>\<open>utils.setDataModelProps\<close>) and is a snapshot of it: no method of the class assigns
  to a property of \<^verbatim>\<open>this\<close>.
\<close>

record thread =
  t_id :: string
  status :: thread_status
  user_id :: string
  user_name :: string
  channel_id :: string
  scheduled_close_at :: "timestamp option"
  scheduled_close_id :: "string option"
  scheduled_close_name :: "string option"
  alert_users :: "string option"
  staff_role_overrides :: "overrides option"
  created_at :: timestamp

text \<open>One row of table \<^verbatim>\<open>thread_messages\<close>.\<close>

record thread_message =
  thread_id :: string
  tm_created_at :: timestamp
  message_type :: message_type
  tm_user_id :: "string option"
  tm_user_name :: string
  body :: string
  is_anonymous :: nat
  dm_message_id :: nat
  thread_message_id :: nat

text \<open>
  An attachment, with what the collaborators return for it: \<open>url\<close> is the result of
  \<^verbatim>\<open>attachments.getUrl\<close>, \<open>formatted\<close> the result of \<^verbatim>\<open>utils.formatAttachment\<close>.
\<close>

record attachment =
  att_id :: string
  filename :: string
  att_size :: nat
  url :: string
  formatted :: string

text \<open>\<^verbatim>\<open>Eris.MessageContent\<close>: a string, or an object with a content and maybe an embed.\<close>

datatype message_content = PlainText string | Rich string "string option"

text \<open>A message as delivered by the gateway.\<close>

record message =
  msg_id :: nat
  msg_content :: message_content
  msg_files :: "attachment list"

text \<open>An inbound message of the remote user (\<^verbatim>\<open>Eris.Message\<close>).\<close>

record user_message =
  um_id :: nat
  content :: string
  embeds :: "string list"
  author_username :: string
  author_discriminator :: string
  um_timestamp :: timestamp
  um_attachments :: "attachment list"

record user =
  u_id :: string
  username :: string
  discriminator :: string

record role =
  role_id :: string
  role_name :: string

text \<open>
  An operator (\<^verbatim>\<open>Eris.Member\<close>). \<open>guild_roles\<close> is \<^verbatim>\<open>member.guild.roles\<close> (absent when
  the guild is), \<open>default_role\<close> is what \<^verbatim>\<open>utils.getMainRole\<close> returns for the member.
\<close>

record member =
  m_id :: string
  m_username :: string
  nick :: "string option"
  guild_roles :: "(string \<times> role) list option"
  default_role :: "role option"

record config =
  useNicknames :: bool
  threadTimestamps :: bool
  relaySmallAttachmentsAsAttachments :: bool
  getTimestamp :: "timestamp \<Rightarrow> string"

section \<open>The world around a thread\<close>

text \<open>
  The relay channel either accepts a message, or is gone (the gateway answers with code
  10003), or the gateway fails with another error. The direct-message channel is open, or
  cannot be opened (\<^verbatim>\<open>getDMChannel\<close> yields nothing), or fails with an error.
\<close>

datatype relay_state = Present | Gone | Faulty string

datatype dm_state = DmOpen | DmUnavailable | DmFault string

datatype error = Error string | TypeError

datatype sse_event = NewMessage thread_message | ThreadClose thread

text \<open>
  The state one thread's operations read and write: its row in the store (the row exists:
  threads are closed, never deleted), its transcript in insertion order, what was
  delivered to the relay channel and to the remote user, the state of both channels,
  whether \<^verbatim>\<open>bot.getChannel\<close> finds the relay channel, the identity of the bot
  (\<^verbatim>\<open>bot.user\<close>), the clock and the events pushed to the event sink. The state of a
  channel does not change during an operation except by the operation itself. Deleting
  the relay channel can fail: \<open>delete_fault\<close> is the error the gateway answers to a
  deletion of a present channel, if any. The cache learns of a deletion by a later event
  of the gateway: \<open>stale_cache\<close> tells whether \<^verbatim>\<open>bot.getChannel\<close> still finds the
  channel once it has been deleted. Calls that the source does not await are run in place
  and their errors are dropped; timers that delete a notice later, failures of the store,
  and console output are left out.
\<close>

record world =
  db_thread :: thread
  thread_messages :: "thread_message list"
  relay :: relay_state
  channel_cached :: bool
  stale_cache :: bool
  delete_fault :: "string option"
  relay_sent :: "message list"
  dm :: dm_state
  dm_sent :: "message list"
  next_msg_id :: nat
  bot_user :: user
  now :: timestamp
  sse_log :: "sse_event list"

type_synonym 'a outcome = "(error + 'a) \<times> world"

definition error_message :: "error \<Rightarrow> string" where
  "error_message e =
     (case e of Error m \<Rightarrow> m | TypeError \<Rightarrow> ''Cannot read property 'split' of null'')"

section \<open>Operations of class Thread\<close>

subsection \<open>Store updates\<close>

definition scheduleClose :: "thread \<Rightarrow> timestamp \<Rightarrow> user \<Rightarrow> world \<Rightarrow> world" where
  "scheduleClose t time u w =
     w\<lparr>db_thread := (db_thread w)\<lparr>
          scheduled_close_at := Some time,
          scheduled_close_id := Some (u_id u),
          scheduled_close_name := Some (username u @ ''#'' @ discriminator u)\<rparr>\<rparr>"

definition cancelScheduledClose :: "thread \<Rightarrow> world \<Rightarrow> world" where
  "cancelScheduledClose t w =
     w\<lparr>db_thread := (db_thread w)\<lparr>
          scheduled_close_at := None,
          scheduled_close_id := None,
          scheduled_close_name := None\<rparr>\<rparr>"

definition suspend :: "thread \<Rightarrow> world \<Rightarrow> world" where
  "suspend t w = w\<lparr>db_thread := (db_thread w)\<lparr>status := SUSPENDED\<rparr>\<rparr>"

definition unsuspend :: "thread \<Rightarrow> world \<Rightarrow> world" where
  "unsuspend t w = w\<lparr>db_thread := (db_thread w)\<lparr>status := OPEN\<rparr>\<rparr>"

text \<open>
  \<^verbatim>\<open>addThreadMessageToDB\<close>: the row is the caller's data with the thread's id and the
  current time (no caller passes either of the two).
\<close>

definition addThreadMessageToDB :: "thread \<Rightarrow> thread_message \<Rightarrow> bool \<Rightarrow> world \<Rightarrow> world" where
  "addThreadMessageToDB t data sse w =
     (let threadMessage = data\<lparr>thread_id := t_id t, tm_created_at := now w\<rparr>;
          w1 = w\<lparr>thread_messages := thread_messages w @ [threadMessage]\<rparr>
      in if sse then w1\<lparr>sse_log := sse_log w1 @ [NewMessage threadMessage]\<rparr> else w1)"

text \<open>The data of a row as a caller of \<^verbatim>\<open>addThreadMessageToDB\<close> gives them.\<close>

definition row_data ::
  "message_type \<Rightarrow> string option \<Rightarrow> string \<Rightarrow> string \<Rightarrow> nat \<Rightarrow> nat \<Rightarrow> nat \<Rightarrow> thread_message" where
  "row_data ty uid uname b anon dm_mid th_mid =
     \<lparr>thread_id = [], tm_created_at = 0, message_type = ty, tm_user_id = uid,
      tm_user_name = uname, body = b, is_anonymous = anon, dm_message_id = dm_mid,
      thread_message_id = th_mid\<rparr>"

subsection \<open>Watchers\<close>

text \<open>
  \<^verbatim>\<open>alertStatus\<close>: the array is \<^verbatim>\<open>(alert_users && alert_users.split(", ")) || []\<close>;
  \<^verbatim>\<open>splice(index, 1)\<close> removes the first occurrence, which is \<open>remove1\<close>.
\<close>

definition alerts_of :: "string option \<Rightarrow> string list" where
  "alerts_of a = (case a of None \<Rightarrow> [] | Some s \<Rightarrow> if s = [] then [] else js_split '', '' s)"

definition alertStatus :: "thread \<Rightarrow> string \<Rightarrow> bool \<Rightarrow> world \<Rightarrow> world" where
  "alertStatus t userId st w =
     (let alerts = alerts_of (alert_users (db_thread w));
          alerts1 = (if userId \<notin> set alerts \<and> st then alerts @ [userId]
                     else if \<not> st then remove1 userId alerts
                     else alerts);
          alerts2 = (if length alerts1 > 0 then Some (js_join '', '' alerts1) else None)
      in w\<lparr>db_thread := (db_thread w)\<lparr>alert_users := alerts2\<rparr>\<rparr>)"

subsection \<open>Role overrides\<close>

definition setStaffRoleOverride :: "thread \<Rightarrow> string \<Rightarrow> string \<Rightarrow> world \<Rightarrow> world" where
  "setStaffRoleOverride t userId roleId w =
     (let ov = (case staff_role_overrides (db_thread w) of Some m \<Rightarrow> m | None \<Rightarrow> [])
      in w\<lparr>db_thread := (db_thread w)\<lparr>
             staff_role_overrides := Some (AList.update userId roleId ov)\<rparr>\<rparr>)"

definition deleteStaffRoleOverride :: "thread \<Rightarrow> string \<Rightarrow> world \<Rightarrow> world" where
  "deleteStaffRoleOverride t userId w =
     (case staff_role_overrides (db_thread w) of
        None \<Rightarrow> w
      | Some ov \<Rightarrow>
          if truthy (map_of ov userId)
          then w\<lparr>db_thread := (db_thread w)\<lparr>
                 staff_role_overrides := Some (AList.delete userId ov)\<rparr>\<rparr>
          else w)"

definition getStaffRoleOverride :: "thread \<Rightarrow> string \<Rightarrow> string option" where
  "getStaffRoleOverride t userId =
     (case staff_role_overrides t of None \<Rightarrow> None | Some ov \<Rightarrow> map_of ov userId)"

definition getMainRole :: "thread \<Rightarrow> member \<Rightarrow> role option" where
  "getMainRole t m =
     (case getStaffRoleOverride t (m_id m) of
        None \<Rightarrow> default_role m
      | Some r \<Rightarrow>
          if r \<noteq> []
          then (case guild_roles m of
                  None \<Rightarrow> default_role m
                | Some rs \<Rightarrow> (case map_of rs r of
                                Some override \<Rightarrow> Some override
                              | None \<Rightarrow> default_role m))
          else default_role m)"

subsection \<open>Sending\<close>

definition deliver :: "message_content \<Rightarrow> attachment list \<Rightarrow> world \<Rightarrow> message" where
  "deliver text files w = \<lparr>msg_id = next_msg_id w, msg_content = text, msg_files = files\<rparr>"

text \<open>
  \<^verbatim>\<open>postToUser\<close>: every failure of \<^verbatim>\<open>getDMChannel\<close> or of the send is an exception of
  the call.
\<close>

definition postToUser :: "thread \<Rightarrow> message_content \<Rightarrow> attachment list \<Rightarrow> world \<Rightarrow> message outcome" where
  "postToUser t text file w =
     (case dm w of
        DmUnavailable \<Rightarrow>
          (Inl (Error (''Could not open DMs with the user. They may have blocked the bot '' @
                       ''or set their privacy settings higher.'')), w)
      | DmFault e \<Rightarrow> (Inl (Error e), w)
      | DmOpen \<Rightarrow>
          (Inr (deliver text file w),
           w\<lparr>dm_sent := dm_sent w @ [deliver text file w], next_msg_id := next_msg_id w + 1\<rparr>))"

text \<open>
  \<^verbatim>\<open>close\<close>, when no author is given: the author is rebuilt from the stored row, and
  \<^verbatim>\<open>scheduled_close_name.split\<close> raises a TypeError on \<^verbatim>\<open>null\<close>.
\<close>

definition closing_author :: "user option \<Rightarrow> world \<Rightarrow> error + (string option \<times> string \<times> string)" where
  "closing_author author w =
     (case author of
        Some a \<Rightarrow> Inr (Some (u_id a), username a, discriminator a)
      | None \<Rightarrow>
          (let newThread = db_thread w in
           case scheduled_close_name newThread of
             None \<Rightarrow> Inl TypeError
           | Some nm \<Rightarrow>
               Inr (scheduled_close_id newThread,
                    js_join ''#'' (butlast (js_split ''#'' nm)),
                    last (js_split ''#'' nm))))"

text \<open>
  \<^verbatim>\<open>channel.delete("Thread closed")\<close>: a present channel is deleted unless the gateway
  refuses; a channel that is gone answers channel-not-found; a failing gateway fails.
\<close>

definition deleteChannel :: "world \<Rightarrow> unit outcome" where
  "deleteChannel w =
     (case relay w of
        Present \<Rightarrow>
          (case delete_fault w of
             None \<Rightarrow> (Inr (), w\<lparr>relay := Gone, channel_cached := stale_cache w\<rparr>)
           | Some e \<Rightarrow> (Inl (Error e), w))
      | Gone \<Rightarrow> (Inl (Error ''Unknown Channel''), w)
      | Faulty e \<Rightarrow> (Inl (Error e), w))"

definition closing_notice :: message_content where
  "closing_notice = PlainText ''Closing thread...''"

text \<open>
  \<^verbatim>\<open>close\<close> and \<^verbatim>\<open>postToThreadChannel\<close> call each other: a close that is not silent posts
  a notice, and a post to a channel that is gone closes the thread silently, as the bot
  (that call is not awaited: its result is dropped, also when it is an error). The
  deletion of the channel is awaited and not caught: its error is the error of the close,
  after the row was written.
\<close>

function close :: "thread \<Rightarrow> user option \<Rightarrow> bool \<Rightarrow> bool \<Rightarrow> world \<Rightarrow> unit outcome"
  and postToThreadChannel ::
    "thread \<Rightarrow> message_content \<Rightarrow> attachment list \<Rightarrow> world \<Rightarrow> message option outcome"
where
  "close t author silent sse w =
     (case (if \<not> silent then postToThreadChannel t closing_notice [] w
            else (Inr None, w)) of
        (Inl e, w1) \<Rightarrow> (Inl e, w1)
      | (Inr _, w1) \<Rightarrow>
          (case closing_author author w1 of
             Inl e \<Rightarrow> (Inl e, w1)
           | Inr (a_id, a_username, a_discriminator) \<Rightarrow>
               (let w2 = w1\<lparr>db_thread := (db_thread w1)\<lparr>
                           status := CLOSED,
                           scheduled_close_at := Some (now w1),
                           scheduled_close_id := a_id,
                           scheduled_close_name := Some (a_username @ ''#'' @ a_discriminator),
                           alert_users := None,
                           staff_role_overrides := None\<rparr>\<rparr>;
                    w3 = (if sse then w2\<lparr>sse_log := sse_log w2 @ [ThreadClose (db_thread w2)]\<rparr>
                          else w2)
                in if channel_cached w3 then deleteChannel w3 else (Inr (), w3))))"
| "postToThreadChannel t text file w =
     (case relay w of
        Present \<Rightarrow>
          (Inr (Some (deliver text file w)),
           w\<lparr>relay_sent := relay_sent w @ [deliver text file w],
             next_msg_id := next_msg_id w + 1\<rparr>)
      | Gone \<Rightarrow> (Inr None, snd (close t (Some (bot_user w)) True False w))
      | Faulty e \<Rightarrow> (Inl (Error e), w))"
  by pat_completeness auto

termination
  by (relation "measure (\<lambda>x. case x of
        Inl (t, author, silent, sse, w) \<Rightarrow> (if silent then 0 else 2)
      | Inr (t, text, file, w) \<Rightarrow> Suc 0)") auto

declare close.simps [simp del] postToThreadChannel.simps [simp del]

text \<open>
  The transcript body of a system message. For an object the source evaluates
  \<^verbatim>\<open>(text.content + text.embed ? " <embed>" : "").trim()\<close>, where \<^verbatim>\<open>+\<close> binds tighter
  than the conditional: the test is on the concatenated string.
\<close>

definition system_body :: "message_content \<Rightarrow> string" where
  "system_body text =
     (case text of
        PlainText s \<Rightarrow> s
      | Rich c e \<Rightarrow>
          js_trim (if c @ (case e of None \<Rightarrow> ''undefined'' | Some _ \<Rightarrow> ''[object Object]'') \<noteq> []
                   then '' <embed>'' else []))"

definition postSystemMessage ::
  "thread \<Rightarrow> message_content \<Rightarrow> attachment list \<Rightarrow> world \<Rightarrow> message option outcome" where
  "postSystemMessage t text file w =
     (case postToThreadChannel t text file w of
        (Inl e, w1) \<Rightarrow> (Inl e, w1)
      | (Inr None, w1) \<Rightarrow> (Inr None, w1)
      | (Inr (Some msg), w1) \<Rightarrow>
          (Inr (Some msg),
           addThreadMessageToDB t
             (row_data SYSTEM None [] (system_body text) 0 (msg_id msg) (msg_id msg)) False w1))"

subsection \<open>Outbound reply\<close>

definition nl2 :: string where
  "nl2 = [CHR 0x0A, CHR 0x0A]"

definition reply_names :: "config \<Rightarrow> thread \<Rightarrow> member \<Rightarrow> bool \<Rightarrow> string \<times> string" where
  "reply_names cfg t moderator isAnonymous =
     (let mainRole = getMainRole t moderator in
      if isAnonymous
      then ((case mainRole of Some r \<Rightarrow> role_name r | None \<Rightarrow> ''Staff''),
            ''('' @ m_username moderator @ '') '' @
              (case mainRole of Some r \<Rightarrow> role_name r | None \<Rightarrow> ''Staff''))
      else (let name = (if useNicknames cfg
                        then (if truthy (nick moderator) then show_nullable (nick moderator)
                              else m_username moderator)
                        else m_username moderator);
                modUsername = (case mainRole of
                                 Some r \<Rightarrow> ''('' @ name @ '') '' @ role_name r
                               | None \<Rightarrow> name)
            in (modUsername, modUsername)))"

definition reply_thread_content :: "config \<Rightarrow> string \<Rightarrow> string \<Rightarrow> world \<Rightarrow> string" where
  "reply_thread_content cfg logModUsername text w =
     (let threadContent = ''**'' @ logModUsername @ '':** '' @ text in
      if threadTimestamps cfg
      then ''[**'' @ getTimestamp cfg (now w) @ ''**] '' @ [CHR 0xC2, CHR 0xBB] @ '' '' @ threadContent
      else threadContent)"

definition reply_log_content :: "string \<Rightarrow> attachment list \<Rightarrow> string" where
  "reply_log_content text replyAttachments =
     foldl (\<lambda>logContent a. logContent @ nl2 @ ''**Attachment:** '' @ url a) text replyAttachments"

definition dm_error_notice :: "error \<Rightarrow> message_content" where
  "dm_error_notice e = PlainText (''Error while replying to user: '' @ error_message e)"

definition reply_cancel_notice :: message_content where
  "reply_cancel_notice =
     PlainText ''Cancelling scheduled closing of this thread due to new reply''"

definition replyToUser ::
  "config \<Rightarrow> thread \<Rightarrow> member \<Rightarrow> string \<Rightarrow> attachment list \<Rightarrow> bool \<Rightarrow> bool \<Rightarrow> world
   \<Rightarrow> unit outcome" where
  "replyToUser cfg t moderator text replyAttachments isAnonymous sse w =
     (let (modUsername, logModUsername) = reply_names cfg t moderator isAnonymous;
          dmContent = ''**'' @ modUsername @ '':** '' @ text;
          threadContent = reply_thread_content cfg logModUsername text w;
          logContent = reply_log_content text replyAttachments;
          files = replyAttachments
      in case postToUser t (PlainText dmContent) files w of
           (Inl e, w1) \<Rightarrow>
             (case postSystemMessage t (dm_error_notice e) [] w1 of
                (Inl e', w2) \<Rightarrow> (Inl e', w2)
              | (Inr _, w2) \<Rightarrow> (Inr (), w2))
         | (Inr dmMessage, w1) \<Rightarrow>
             (case postToThreadChannel t (PlainText threadContent) files w1 of
                (Inl e, w2) \<Rightarrow> (Inl e, w2)
              | (Inr None, w2) \<Rightarrow> (Inr (), w2)
              | (Inr (Some threadMessage), w2) \<Rightarrow>
                  (let w3 = addThreadMessageToDB t
                              (row_data TO_USER (Some (m_id moderator)) logModUsername logContent
                                 (if isAnonymous then 1 else 0)
                                 (msg_id dmMessage) (msg_id threadMessage)) sse w2
                   in if scheduled_close_at t \<noteq> None
                      then (case postSystemMessage t reply_cancel_notice []
                                   (cancelScheduledClose t w3) of
                              (Inl e, w5) \<Rightarrow> (Inl e, w5)
                            | (Inr _, w5) \<Rightarrow> (Inr (), w5))
                      else (Inr (), w3))))"

subsection \<open>Inbound message\<close>

text \<open>
  The loop over the attachments of an inbound message: the log always gets the link, the
  relay side gets the file when it is small (at most 2 MB) and relaying files is on, and
  the link otherwise. The state of the loop is (threadContent, logContent, attachmentFiles).
\<close>

fun relay_attachments ::
  "config \<Rightarrow> attachment list \<Rightarrow> string \<times> string \<times> attachment list
   \<Rightarrow> string \<times> string \<times> attachment list" where
  "relay_attachments cfg [] acc = acc"
| "relay_attachments cfg (a # as) (threadContent, logContent, attachmentFiles) =
     (if relaySmallAttachmentsAsAttachments cfg \<and> att_size a \<le> 1024 * 1024 * 2
      then relay_attachments cfg as
             (threadContent, logContent @ nl2 @ formatted a, attachmentFiles @ [a])
      else relay_attachments cfg as
             (threadContent @ nl2 @ formatted a, logContent @ nl2 @ formatted a, attachmentFiles))"

definition inbound_content :: "user_message \<Rightarrow> string" where
  "inbound_content msg =
     (if js_trim (content msg) = [] \<and> length (embeds msg) \<noteq> 0
      then ''<message contains embeds>'' else content msg)"

definition inbound_thread_content :: "config \<Rightarrow> user_message \<Rightarrow> string" where
  "inbound_thread_content cfg msg =
     (let threadContent = ''**'' @ author_username msg @ ''#'' @ author_discriminator msg @
                          '':** '' @ inbound_content msg in
      if threadTimestamps cfg
      then ''[**'' @ getTimestamp cfg (um_timestamp msg) @ ''**] '' @ [CHR 0xC2, CHR 0xAB] @ '' '' @
           threadContent
      else threadContent)"

text \<open>
  The mention list of the alert notice: the watchers other than the one who scheduled the
  close, each with its separator by position, concatenated.
\<close>

definition alert_mentions :: "thread \<Rightarrow> string \<Rightarrow> string" where
  "alert_mentions t alert_users_text =
     (let arr = filter (\<lambda>i. Some i \<noteq> scheduled_close_id t) (js_split '', '' alert_users_text)
      in concat (map (\<lambda>(i, ident).
                        (if i = 0 then [] else if i = length arr - 1 then '' and '' else '', '') @
                        ''<@'' @ ident @ ''>'')
                     (enumerate 0 arr)))"

text \<open>
  \<^verbatim>\<open>bot.createMessage(msg.channel.id, ...)\<close>: a send to the channel the inbound message
  came from, which is the direct-message channel.
\<close>

definition createDirectMessage :: "message_content \<Rightarrow> world \<Rightarrow> message outcome" where
  "createDirectMessage text w =
     (case dm w of
        DmOpen \<Rightarrow>
          (Inr (deliver text [] w),
           w\<lparr>dm_sent := dm_sent w @ [deliver text [] w], next_msg_id := next_msg_id w + 1\<rparr>)
      | DmUnavailable \<Rightarrow> (Inl (Error ''Cannot send messages to this user''), w)
      | DmFault e \<Rightarrow> (Inl (Error e), w))"

definition alert_notice :: "thread \<Rightarrow> string \<Rightarrow> message_content" where
  "alert_notice t alerts =
     PlainText (alerts @ '', there is a new message from **'' @ user_name t @ ''**!'')"

definition cancel_notice :: "thread \<Rightarrow> message_content" where
  "cancel_notice t =
     Rich (''<@!'' @ show_nullable (scheduled_close_id t) @
           ''> Thread that was scheduled to be closed got a new reply. Cancelling.'') None"

definition reminder_notice :: "thread \<Rightarrow> message_content" where
  "reminder_notice t =
     Rich (''<@!'' @ show_nullable (scheduled_close_id t) @
           ''> The thread was updated, use `!close cancel` if you would like to cancel.'') None"

definition closed_notice_to_user :: message_content where
  "closed_notice_to_user =
     PlainText (''The current thread was automatically closed due to an internal '' @
                ''error. Please send another message to open a new thread.'')"

definition alert_step :: "thread \<Rightarrow> world \<Rightarrow> world" where
  "alert_step t w =
     (case alert_users t of
        None \<Rightarrow> w
      | Some a \<Rightarrow>
          if a \<noteq> []
          then (let alerts = alert_mentions t a in
                if length alerts \<noteq> 0
                then snd (postSystemMessage t (alert_notice t alerts) [] w)
                else w)
          else w)"

definition pending_close_step :: "thread \<Rightarrow> world \<Rightarrow> unit outcome" where
  "pending_close_step t w =
     (case scheduled_close_at t of
        None \<Rightarrow> (Inr (), w)
      | Some closedAt \<Rightarrow>
          (case (if closedAt - now w \<le> 30000
                 then postSystemMessage t (cancel_notice t) [] (cancelScheduledClose t w)
                 else postSystemMessage t (reminder_notice t) [] w) of
             (Inl e, w1) \<Rightarrow> (Inl e, w1)
           | (Inr _, w1) \<Rightarrow> (Inr (), w1)))"

definition receiveUserReply :: "config \<Rightarrow> thread \<Rightarrow> user_message \<Rightarrow> bool \<Rightarrow> world \<Rightarrow> unit outcome" where
  "receiveUserReply cfg t msg sse w =
     (let (threadContent, logContent, attachmentFiles) =
            relay_attachments cfg (um_attachments msg)
              (inbound_thread_content cfg msg, content msg, [])
      in case postToThreadChannel t (PlainText threadContent) attachmentFiles w of
           (Inl e, w1) \<Rightarrow> (Inl e, w1)
         | (Inr None, w1) \<Rightarrow>
             (case createDirectMessage closed_notice_to_user w1 of
                (Inl e, w2) \<Rightarrow> (Inl e, w2)
              | (Inr _, w2) \<Rightarrow> (Inr (), w2))
         | (Inr (Some threadMessage), w1) \<Rightarrow>
             (let w2 = addThreadMessageToDB t
                         (row_data FROM_USER (Some (user_id t))
                            (author_username msg @ ''#'' @ author_discriminator msg) logContent 0
                            (um_id msg) (msg_id threadMessage)) sse w1
              in pending_close_step t (alert_step t w2)))"

section \<open>Sequences of operations, invariants and sample values\<close>

datatype sched_op = ScheduleClose timestamp user | CancelScheduledClose

fun run_sched :: "thread \<Rightarrow> sched_op list \<Rightarrow> world \<Rightarrow> world" where
  "run_sched t [] w = w"
| "run_sched t (ScheduleClose time u # ops) w = run_sched t ops (scheduleClose t time u w)"
| "run_sched t (CancelScheduledClose # ops) w = run_sched t ops (cancelScheduledClose t w)"

definition scheduled_all_null :: "thread \<Rightarrow> bool" where
  "scheduled_all_null row =
     (scheduled_close_at row = None \<and> scheduled_close_id row = None \<and>
      scheduled_close_name row = None)"

definition scheduled_all_set :: "thread \<Rightarrow> bool" where
  "scheduled_all_set row =
     (scheduled_close_at row \<noteq> None \<and> scheduled_close_id row \<noteq> None \<and>
      scheduled_close_name row \<noteq> None)"

text \<open>A \<^verbatim>\<open>Thread\<close> object freshly built from the stored row.\<close>

definition reload :: "world \<Rightarrow> thread" where
  "reload w = db_thread w"

definition sample_thread :: thread where
  "sample_thread =
     \<lparr>t_id = ''17'', status = OPEN, user_id = ''900'', user_name = ''alice#0001'',
      channel_id = ''555'', scheduled_close_at = None, scheduled_close_id = None,
      scheduled_close_name = None, alert_users = None, staff_role_overrides = None,
      created_at = 0\<rparr>"

definition sample_bot :: user where
  "sample_bot = \<lparr>u_id = ''1'', username = ''modmail'', discriminator = ''0000''\<rparr>"

definition sample_world :: world where
  "sample_world =
     \<lparr>db_thread = sample_thread, thread_messages = [], relay = Present, channel_cached = True,
      stale_cache = False, delete_fault = None,
      relay_sent = [], dm = DmOpen, dm_sent = [], next_msg_id = 100, bot_user = sample_bot,
      now = 1000000, sse_log = []\<rparr>"

definition sample_operator :: user where
  "sample_operator = \<lparr>u_id = ''42'', username = ''bob'', discriminator = ''1234''\<rparr>"

text \<open>
  Operator ids are non-empty and contain no comma (they are decimal numbers). The stored
  \<^verbatim>\<open>alert_users\<close> is well formed when it is null or splits into such ids without
  repetition. \<open>watchers\<close> is the array \<^verbatim>\<open>alertStatus\<close> decodes from the store.
\<close>

definition valid_id :: "string \<Rightarrow> bool" where
  "valid_id u = (u \<noteq> [] \<and> CHR '','' \<notin> set u)"

definition watchers :: "world \<Rightarrow> string list" where
  "watchers w = alerts_of (alert_users (db_thread w))"

definition alerts_wf :: "string option \<Rightarrow> bool" where
  "alerts_wf a =
     (case a of
        None \<Rightarrow> True
      | Some s \<Rightarrow> list_all valid_id (js_split '', '' s) \<and> distinct (js_split '', '' s))"

fun run_alerts :: "thread \<Rightarrow> (string \<times> bool) list \<Rightarrow> world \<Rightarrow> world" where
  "run_alerts t [] w = w"
| "run_alerts t ((u, st) # ops) w = run_alerts t ops (alertStatus t u st w)"

text \<open>
  What the specification says of one call and of a sequence of calls: adding inserts the
  id unless it is there, removing takes it out.
\<close>

definition spec_alert_step :: "string \<Rightarrow> bool \<Rightarrow> string list \<Rightarrow> string list" where
  "spec_alert_step u st ws =
     (if st then (if u \<in> set ws then ws else ws @ [u]) else remove1 u ws)"

fun spec_watcher_set :: "(string \<times> bool) list \<Rightarrow> string set \<Rightarrow> string set" where
  "spec_watcher_set [] S = S"
| "spec_watcher_set ((u, st) # ops) S =
     spec_watcher_set ops (if st then insert u S else S - {u})"

text \<open>The contents delivered to the relay channel and to the remote user, in order.\<close>

definition relay_contents :: "world \<Rightarrow> message_content list" where
  "relay_contents w = map msg_content (relay_sent w)"

definition dm_contents :: "world \<Rightarrow> message_content list" where
  "dm_contents w = map msg_content (dm_sent w)"

text \<open>
  The mention list as the specification words it: one mention alone, otherwise the
  mentions but the last separated by commas, then \<open>and\<close>, then the last.
\<close>

fun spec_mentions :: "string list \<Rightarrow> string" where
  "spec_mentions [] = []"
| "spec_mentions [a] = ''<@'' @ a @ ''>''"
| "spec_mentions (a # b # cs) =
     js_join '', '' (map (\<lambda>i. ''<@'' @ i @ ''>'') (butlast (a # b # cs))) @
     '' and '' @ ''<@'' @ last (a # b # cs) @ ''>''"

definition sample_config :: config where
  "sample_config =
     \<lparr>useNicknames = True, threadTimestamps = False, relaySmallAttachmentsAsAttachments = True,
      getTimestamp = (\<lambda>ts. ''12:00'')\<rparr>"

definition watched_thread :: thread where
  "watched_thread =
     sample_thread\<lparr>alert_users := Some ''11, 42, 12, 13'',
                   scheduled_close_at := Some 5000000,
                   scheduled_close_id := Some ''42'',
                   scheduled_close_name := Some ''bob#1234''\<rparr>"

definition watched_world :: world where
  "watched_world = sample_world\<lparr>db_thread := watched_thread\<rparr>"

definition sample_message :: user_message where
  "sample_message =
     \<lparr>um_id = 7, content = ''hello'', embeds = [], author_username = ''alice'',
      author_discriminator = ''0001'', um_timestamp = 999000, um_attachments = []\<rparr>"

definition embed_message :: user_message where
  "embed_message = sample_message\<lparr>content := '' '', embeds := [''card'']\<rparr>"

text \<open>A message of a no-break space (U+00A0), a line separator (U+2028) and a blank.\<close>

definition nbsp_message :: user_message where
  "nbsp_message =
     sample_message\<lparr>content := [CHR 0xC2, CHR 0xA0, CHR 0xE2, CHR 0x80, CHR 0xA8, CHR 0x20],
                    embeds := [''card'']\<rparr>"

text \<open>
  What the loop over the attachments appends: a link per attachment, and which attachments
  go to the relay channel as files.
\<close>

definition attachment_links :: "attachment list \<Rightarrow> string" where
  "attachment_links as = concat (map (\<lambda>a. nl2 @ formatted a) as)"

definition relayed_as_file :: "config \<Rightarrow> attachment \<Rightarrow> bool" where
  "relayed_as_file cfg a = (relaySmallAttachmentsAsAttachments cfg \<and> att_size a \<le> 1024 * 1024 * 2)"

text \<open>More sample values: an operator, and worlds without a cached or a present relay channel.\<close>

definition sample_member :: member where
  "sample_member =
     \<lparr>m_id = ''42'', m_username = ''bob'', nick = None, guild_roles = None,
      default_role = None\<rparr>"


definition gone_world :: world where
  "gone_world = sample_world\<lparr>relay := Gone\<rparr>"

text \<open>
  The alert notices an inbound message brings, and the text of the direct message of a
  reply, as \<^verbatim>\<open>receiveUserReply\<close> and \<^verbatim>\<open>replyToUser\<close> build them.
\<close>

definition alert_contents :: "thread \<Rightarrow> message_content list" where
  "alert_contents t =
     (case alert_users t of
        None \<Rightarrow> []
      | Some a \<Rightarrow> if a \<noteq> [] \<and> alert_mentions t a \<noteq> []
                  then [alert_notice t (alert_mentions t a)] else [])"

definition reply_dm_content :: "config \<Rightarrow> thread \<Rightarrow> member \<Rightarrow> bool \<Rightarrow> string \<Rightarrow> string" where
  "reply_dm_content cfg t moderator isAnonymous text =
     ''**'' @ fst (reply_names cfg t moderator isAnonymous) @ '':** '' @ text"

definition blocked_world :: world where
  "blocked_world = sample_world\<lparr>dm := DmUnavailable\<rparr>"

definition soon_thread :: thread where
  "soon_thread = watched_thread\<lparr>scheduled_close_at := Some 1010000\<rparr>"

definition soon_world :: world where
  "soon_world = sample_world\<lparr>db_thread := soon_thread\<rparr>"

text \<open>
  Worlds in which the gateway fails, the cache keeps a deleted channel, and the relay
  channel of the watched thread is gone.
\<close>

definition fault_world :: world where
  "fault_world = sample_world\<lparr>relay := Faulty ''Internal Server Error''\<rparr>"


definition gone_watched_world :: world where
  "gone_watched_world = watched_world\<lparr>relay := Gone, channel_cached := False\<rparr>"

section \<open>Properties\<close>

subsection \<open>Splitting and joining\<close>

lemma js_split_nonempty: "js_split sep s \<noteq> []"
  by (induction sep s rule: js_split.induct) (auto simp: Let_def)

lemma js_join_Cons: "ys \<noteq> [] \<Longrightarrow> js_join sep (x # ys) = x @ sep @ js_join sep ys"
  by (cases ys) auto

lemma js_join_split: "js_join sep (js_split sep s) = s"
proof (induction sep s rule: js_split.induct)
  case (1 sep)
  then show ?case by simp
next
  case (2 sep c cs)
  show ?case
  proof (cases "sep \<noteq> [] \<and> take (length sep) (c # cs) = sep")
    case True
    then have "js_join sep (js_split sep (c # cs)) =
        sep @ js_join sep (js_split sep (drop (length sep) (c # cs)))"
      by (simp add: js_join_Cons js_split_nonempty)
    also have "\<dots> = sep @ drop (length sep) (c # cs)"
      using 2(1) True by simp
    also have "\<dots> = c # cs"
      using True by (metis append_take_drop_id)
    finally show ?thesis .
  next
    case False
    obtain p ps where r: "js_split sep cs = p # ps"
      using js_split_nonempty[of sep cs] by (cases "js_split sep cs") auto
    have ih: "js_join sep (p # ps) = cs"
      using 2(2) False r by simp
    have "js_join sep ((c # p) # ps) = c # js_join sep (p # ps)"
      by (cases ps) auto
    with False r ih show ?thesis by (auto simp: Let_def)
  qed
qed

lemma js_join_snoc: "xs \<noteq> [] \<Longrightarrow> js_join sep (xs @ [u]) = js_join sep xs @ sep @ u"
  by (induction sep xs rule: js_join.induct) auto

lemma split_no_comma: "CHR '','' \<notin> set u \<Longrightarrow> js_split '', '' u = [u]"
  by (induction u) (auto simp: Let_def)

lemma split_piece:
  "CHR '','' \<notin> set u \<Longrightarrow>
   js_split '', '' (u @ CHR '','' # CHR '' '' # rest) = u # js_split '', '' rest"
  by (induction u) (auto simp: Let_def)

lemma split_join_ids:
  "xs \<noteq> [] \<Longrightarrow> \<forall>x\<in>set xs. CHR '','' \<notin> set x \<Longrightarrow> js_split '', '' (js_join '', '' xs) = xs"
proof (induction xs)
  case Nil
  then show ?case by simp
next
  case (Cons x xs)
  show ?case
  proof (cases xs)
    case Nil
    with Cons.prems show ?thesis by (simp add: split_no_comma)
  next
    case (Cons y ys)
    then have "js_join '', '' (x # xs) = x @ '', '' @ js_join '', '' xs"
      by simp
    then show ?thesis
      using Cons.IH Cons.prems Cons by (simp add: split_piece del: js_split.simps js_join.simps)
  qed
qed

subsection \<open>Scheduled close\<close>

lemma scheduleClose_all_set: "scheduled_all_set (db_thread (scheduleClose t time u w))"
  by (simp add: scheduleClose_def scheduled_all_set_def)

lemma cancelScheduledClose_all_null: "scheduled_all_null (db_thread (cancelScheduledClose t w))"
  by (simp add: cancelScheduledClose_def scheduled_all_null_def)

lemma run_sched_keeps:
  "scheduled_all_null (db_thread w) \<or> scheduled_all_set (db_thread w) \<Longrightarrow>
   scheduled_all_null (db_thread (run_sched t ops w)) \<or>
   scheduled_all_set (db_thread (run_sched t ops w))"
proof (induction t ops w rule: run_sched.induct)
  case (1 t w)
  then show ?case by simp
next
  case (2 t time u ops w)
  then show ?case by (simp add: scheduleClose_all_set)
next
  case (3 t ops w)
  then show ?case by (simp add: cancelScheduledClose_all_null)
qed

text \<open>
  C6. After any sequence of \<^verbatim>\<open>scheduleClose\<close> and \<^verbatim>\<open>cancelScheduledClose\<close> calls that
  starts from a row whose three scheduled-close fields agree, or that has at least one
  call, the three fields are all null or all set; \<^verbatim>\<open>scheduleClose\<close> sets the three
  together and \<^verbatim>\<open>cancelScheduledClose\<close> clears the three together.
\<close>

theorem scheduled_close_fields_agree:
  "(ops \<noteq> [] \<or> scheduled_all_null (db_thread w) \<or> scheduled_all_set (db_thread w) \<longrightarrow>
      scheduled_all_null (db_thread (run_sched t ops w)) \<or>
      scheduled_all_set (db_thread (run_sched t ops w))) \<and>
   scheduled_all_set (db_thread (scheduleClose t time u w)) \<and>
   scheduled_all_null (db_thread (cancelScheduledClose t w))"
proof -
  have "scheduled_all_null (db_thread (run_sched t ops w)) \<or>
        scheduled_all_set (db_thread (run_sched t ops w))" if "ops \<noteq> []"
  proof (cases ops)
    case Nil
    with that show ?thesis by simp
  next
    case (Cons a rest)
    show ?thesis
    proof (cases a)
      case (ScheduleClose time' u')
      with Cons show ?thesis
        using run_sched_keeps[of "scheduleClose t time' u' w" t rest]
        by (simp add: scheduleClose_all_set)
    next
      case CancelScheduledClose
      with Cons show ?thesis
        using run_sched_keeps[of "cancelScheduledClose t w" t rest]
        by (simp add: cancelScheduledClose_all_null)
    qed
  qed
  then show ?thesis
    using run_sched_keeps[of w t ops]
    by (auto simp: scheduleClose_all_set cancelScheduledClose_all_null)
qed

theorem scheduled_close_fields_agree_witness:
  "scheduled_all_null
     (db_thread (run_sched sample_thread
        [ScheduleClose 2000000 sample_operator, CancelScheduledClose] sample_world)) \<and>
   scheduled_all_set (db_thread (scheduleClose sample_thread 2000000 sample_operator sample_world)) \<and>
   scheduled_all_null (db_thread (cancelScheduledClose sample_thread sample_world))"
  using scheduled_close_fields_agree
          [of "[ScheduleClose 2000000 sample_operator, CancelScheduledClose]"
              sample_world sample_thread 2000000 sample_operator]
  by (simp add: scheduled_all_null_def scheduled_all_set_def scheduleClose_def
        cancelScheduledClose_def)

subsection \<open>Role overrides\<close>

text \<open>
  C7, as the code has it. After \<^verbatim>\<open>setStaffRoleOverride(u, r)\<close> a \<^verbatim>\<open>Thread\<close> object
  built again from the stored row answers \<open>r\<close> to \<^verbatim>\<open>getStaffRoleOverride(u)\<close>; after
  \<^verbatim>\<open>deleteStaffRoleOverride(u)\<close> such an object answers nothing, provided the role id
  stored for \<open>u\<close> was not the empty string (which the deletion's test takes for absent).
\<close>

theorem override_round_trip_through_store:
  "getStaffRoleOverride (reload (setStaffRoleOverride t u r w)) u = Some r \<and>
   (getStaffRoleOverride (reload w) u \<noteq> Some [] \<longrightarrow>
      getStaffRoleOverride (reload (deleteStaffRoleOverride t u w)) u = None)"
  by (auto simp: getStaffRoleOverride_def reload_def setStaffRoleOverride_def
        deleteStaffRoleOverride_def truthy_def update_conv' delete_conv'
      split: option.splits)

theorem override_round_trip_through_store_witness:
  "getStaffRoleOverride (reload (setStaffRoleOverride sample_thread ''42'' ''7'' sample_world)) ''42''
     = Some ''7'' \<and>
   getStaffRoleOverride (reload (setStaffRoleOverride sample_thread ''42'' ''7'' sample_world)) ''42''
     \<noteq> Some [] \<and>
   getStaffRoleOverride
     (reload (deleteStaffRoleOverride sample_thread ''42''
                (setStaffRoleOverride sample_thread ''42'' ''7'' sample_world))) ''42'' = None"
  using override_round_trip_through_store
          [of sample_thread "''42''" "''7''" sample_world]
        override_round_trip_through_store
          [of sample_thread "''42''" "''7''" "setStaffRoleOverride sample_thread ''42'' ''7'' sample_world"]
  by simp

text \<open>
  C7, as stated, fails on the object the call was made on: \<open>sample_thread\<close> is the
  snapshot of the row of \<open>sample_world\<close>, \<^verbatim>\<open>setStaffRoleOverride\<close> writes the store only,
  and the same object still answers nothing.
\<close>

theorem override_same_object_counterexample:
  "reload sample_world = sample_thread \<and>
   getStaffRoleOverride sample_thread ''42'' = None \<and>
   getStaffRoleOverride (reload (setStaffRoleOverride sample_thread ''42'' ''7'' sample_world)) ''42''
     = Some ''7''"
  by (simp add: getStaffRoleOverride_def reload_def setStaffRoleOverride_def sample_world_def
        sample_thread_def)

subsection \<open>Watchers\<close>

lemma alerts_of_encode:
  assumes "xs \<noteq> []" "list_all valid_id xs"
  shows "alerts_of (Some (js_join '', '' xs)) = xs"
proof -
  have sj: "js_split '', '' (js_join '', '' xs) = xs"
    using assms by (intro split_join_ids) (auto simp: list_all_iff valid_id_def)
  have "js_join '', '' xs \<noteq> []"
  proof
    assume "js_join '', '' xs = []"
    with sj have "xs = [[]]" by simp
    with assms(2) show False by (simp add: valid_id_def)
  qed
  with sj show ?thesis by (simp add: alerts_of_def)
qed

lemma alerts_wf_decode:
  assumes "alerts_wf a"
  shows "list_all valid_id (alerts_of a)" "distinct (alerts_of a)"
    "(a = None) = (alerts_of a = [])"
proof -
  show "list_all valid_id (alerts_of a)" "distinct (alerts_of a)"
    using assms by (auto simp: alerts_wf_def alerts_of_def split: option.splits)
  have "s \<noteq> []" if "a = Some s" for s
  proof
    assume "s = []"
    with that assms show False by (simp add: alerts_wf_def valid_id_def)
  qed
  then show "(a = None) = (alerts_of a = [])"
    by (cases a) (auto simp: alerts_of_def js_split_nonempty)
qed

lemma alertStatus_field:
  "alert_users (db_thread (alertStatus t u st w)) =
     (let xs = spec_alert_step u st (watchers w)
      in if xs = [] then None else Some (js_join '', '' xs))"
  by (auto simp: alertStatus_def watchers_def spec_alert_step_def Let_def)

lemma spec_alert_step_ok:
  assumes "list_all valid_id ws" "distinct ws" "valid_id u"
  shows "list_all valid_id (spec_alert_step u st ws)" "distinct (spec_alert_step u st ws)"
    "set (spec_alert_step u st ws) = (if st then insert u (set ws) else set ws - {u})"
  using assms by (auto simp: spec_alert_step_def list_all_iff dest: notin_set_remove1)

lemma alertStatus_step:
  assumes wf: "alerts_wf (alert_users (db_thread w))" and u: "valid_id u"
  shows "watchers (alertStatus t u st w) = spec_alert_step u st (watchers w)"
    and "alerts_wf (alert_users (db_thread (alertStatus t u st w)))"
proof -
  let ?ws = "watchers w" and ?xs = "spec_alert_step u st (watchers w)"
  have ws: "list_all valid_id ?ws" "distinct ?ws"
    using alerts_wf_decode[OF wf] by (simp_all add: watchers_def)
  have xs: "list_all valid_id ?xs" "distinct ?xs"
    using spec_alert_step_ok[OF ws u] by simp_all
  show "watchers (alertStatus t u st w) = ?xs"
    using xs(1)
    by (simp add: watchers_def[of "alertStatus t u st w"] alertStatus_field Let_def
          alerts_of_encode)
       (simp add: alerts_of_def)
  then show "alerts_wf (alert_users (db_thread (alertStatus t u st w)))"
    using xs
    by (auto simp: alertStatus_field Let_def alerts_wf_def watchers_def alerts_of_def
          split: if_splits)
qed

lemma run_alerts_inv:
  assumes "alerts_wf (alert_users (db_thread w))" "\<forall>(u, st) \<in> set ops. valid_id u"
  shows "alerts_wf (alert_users (db_thread (run_alerts t ops w))) \<and>
         set (watchers (run_alerts t ops w)) = spec_watcher_set ops (set (watchers w))"
  using assms
proof (induction t ops w rule: run_alerts.induct)
  case (1 t w)
  then show ?case by simp
next
  case (2 t u st ops w)
  have u: "valid_id u" using 2(3) by simp
  have ws: "list_all valid_id (watchers w)" "distinct (watchers w)"
    using alerts_wf_decode[OF 2(2)] by (simp_all add: watchers_def)
  have "set (watchers (alertStatus t u st w)) = (if st then insert u (set (watchers w)) else set (watchers w) - {u})"
    using alertStatus_step(1)[OF 2(2) u] spec_alert_step_ok(3)[OF ws u] by simp
  moreover have "alerts_wf (alert_users (db_thread (run_alerts t ops (alertStatus t u st w)))) \<and>
      set (watchers (run_alerts t ops (alertStatus t u st w))) =
      spec_watcher_set ops (set (watchers (alertStatus t u st w)))"
    using 2(1)[OF alertStatus_step(2)[OF 2(2) u]] 2(3) by simp
  ultimately show ?case by simp
qed

text \<open>
  C10. Starting from a well-formed \<^verbatim>\<open>alert_users\<close> and for operator ids that are
  non-empty and free of commas, after any sequence of \<^verbatim>\<open>alertStatus\<close> calls the stored
  field is well formed again, no id occurs twice in it, it is null exactly when no watcher
  is left, and the watchers are the set obtained by inserting on \<open>true\<close> and removing on
  \<open>false\<close>; one call changes the decoded list as the specification says (append if
  absent, no change if present, remove if present, no change if absent).
\<close>

theorem alert_users_encodes_set:
  assumes "alerts_wf (alert_users (db_thread w))"
    and "\<forall>(u, st) \<in> set ops. valid_id u"
  shows "alerts_wf (alert_users (db_thread (run_alerts t ops w))) \<and>
         distinct (watchers (run_alerts t ops w)) \<and>
         set (watchers (run_alerts t ops w)) = spec_watcher_set ops (set (watchers w)) \<and>
         ((alert_users (db_thread (run_alerts t ops w)) = None) =
            (watchers (run_alerts t ops w) = [])) \<and>
         (valid_id v \<longrightarrow>
            watchers (alertStatus t v st w) = spec_alert_step v st (watchers w))"
proof -
  have inv: "alerts_wf (alert_users (db_thread (run_alerts t ops w)))"
    and sets: "set (watchers (run_alerts t ops w)) = spec_watcher_set ops (set (watchers w))"
    using run_alerts_inv[OF assms] by simp_all
  have "distinct (watchers (run_alerts t ops w))"
    and "(alert_users (db_thread (run_alerts t ops w)) = None) =
           (watchers (run_alerts t ops w) = [])"
    using alerts_wf_decode[OF inv] by (simp_all add: watchers_def)
  with inv sets show ?thesis
    using alertStatus_step(1)[OF assms(1)] by simp
qed

theorem alert_users_encodes_set_witness:
  "alerts_wf (alert_users (db_thread sample_world)) \<and>
   valid_id ''42'' \<and> valid_id ''43'' \<and> valid_id ''44'' \<and>
   alert_users (db_thread (run_alerts sample_thread
      [(''42'', True), (''43'', True), (''42'', True), (''43'', False)] sample_world)) = Some ''42'' \<and>
   set (watchers (run_alerts sample_thread
      [(''42'', True), (''43'', True), (''42'', True), (''43'', False)] sample_world)) = {''42''} \<and>
   watchers (alertStatus sample_thread ''44'' True sample_world) = [''44'']"
  using alert_users_encodes_set
          [of sample_world "[(''42'', True), (''43'', True), (''42'', True), (''43'', False)]"
              sample_thread "''44''" True]
  by (simp add: alerts_wf_def valid_id_def sample_world_def sample_thread_def alertStatus_def
        alerts_of_def watchers_def spec_alert_step_def Let_def)

subsection \<open>Sending while the relay channel is present\<close>

lemma postToThreadChannel_Present:
  "relay w = Present \<Longrightarrow>
   postToThreadChannel t text file w =
     (Inr (Some (deliver text file w)),
      w\<lparr>relay_sent := relay_sent w @ [deliver text file w], next_msg_id := next_msg_id w + 1\<rparr>)"
  by (simp add: postToThreadChannel.simps)

lemma postSystemMessage_Present:
  "relay w = Present \<Longrightarrow>
   postSystemMessage t text file w =
     (Inr (Some (deliver text file w)),
      w\<lparr>relay_sent := relay_sent w @ [deliver text file w], next_msg_id := next_msg_id w + 1,
        thread_messages := thread_messages w @
          [(row_data SYSTEM None [] (system_body text) 0 (next_msg_id w) (next_msg_id w))
             \<lparr>thread_id := t_id t, tm_created_at := now w\<rparr>]\<rparr>)"
  by (simp add: postSystemMessage_def postToThreadChannel_Present addThreadMessageToDB_def
        deliver_def Let_def)

lemma join_as_concat:
  "js_join sep (x # xs) = x @ concat (map (\<lambda>y. sep @ y) xs)"
  by (induction xs arbitrary: x) auto

lemma mentions_tail:
  "arr \<noteq> [] \<Longrightarrow> 0 < k \<Longrightarrow> L = k + length arr \<Longrightarrow>
   concat (map (\<lambda>(i, x). (if i = 0 then [] else if i = L - 1 then '' and '' else '', '') @ f x)
               (enumerate k arr)) =
   concat (map (\<lambda>x. '', '' @ f x) (butlast arr)) @ '' and '' @ f (last arr)"
proof (induction arr arbitrary: k)
  case Nil
  then show ?case by simp
next
  case (Cons x xs)
  show ?case
  proof (cases xs)
    case Nil
    with Cons.prems show ?thesis by simp
  next
    case (Cons y ys)
    have "concat (map (\<lambda>(i, x). (if i = 0 then [] else if i = L - 1 then '' and '' else '', '') @ f x)
               (enumerate (Suc k) xs)) =
          concat (map (\<lambda>x. '', '' @ f x) (butlast xs)) @ '' and '' @ f (last xs)"
      using Cons.IH[of "Suc k"] Cons.prems Cons by simp
    then show ?thesis using Cons.prems Cons by simp
  qed
qed

lemma alert_mentions_spec:
  "alert_mentions t a =
     spec_mentions (filter (\<lambda>i. Some i \<noteq> scheduled_close_id t) (js_split '', '' a))"
proof -
  let ?arr = "filter (\<lambda>i. Some i \<noteq> scheduled_close_id t) (js_split '', '' a)"
  let ?f = "\<lambda>i. ''<@'' @ i @ ''>''"
  have "concat (map (\<lambda>(i, x). (if i = 0 then [] else if i = length arr - 1 then '' and '' else '', '') @ ?f x)
               (enumerate 0 arr)) = spec_mentions arr" for arr :: "string list"
  proof (cases arr)
    case Nil
    then show ?thesis by simp
  next
    case (Cons x xs)
    show ?thesis
    proof (cases xs)
      case Nil
      with Cons show ?thesis by simp
    next
      case (Cons y ys)
      have "concat (map (\<lambda>(i, x). (if i = 0 then [] else if i = length arr - 1 then '' and '' else '', '') @ ?f x)
               (enumerate (Suc 0) xs)) =
            concat (map (\<lambda>x. '', '' @ ?f x) (butlast xs)) @ '' and '' @ ?f (last xs)"
        using \<open>arr = x # xs\<close> Cons by (intro mentions_tail) auto
      then show ?thesis
        using \<open>arr = x # xs\<close> Cons
        by (simp add: join_as_concat comp_def del: js_join.simps)
    qed
  qed
  from this[of ?arr] show ?thesis
    by (simp add: alert_mentions_def Let_def)
qed

lemma spec_mentions_empty: "(spec_mentions xs = []) = (xs = [])"
  by (cases xs rule: spec_mentions.cases) auto


lemma alert_step_Present:
  assumes "relay w = Present"
  shows "relay (alert_step t w) = Present"
    and "db_thread (alert_step t w) = db_thread w"
    and "now (alert_step t w) = now w"
    and "dm_sent (alert_step t w) = dm_sent w"
    and "relay_contents (alert_step t w) =
          relay_contents w @
          (case alert_users t of
             None \<Rightarrow> []
           | Some a \<Rightarrow> if a \<noteq> [] \<and> alert_mentions t a \<noteq> []
                       then [alert_notice t (alert_mentions t a)] else [])"
  using assms
  by (auto simp: alert_step_def postSystemMessage_Present relay_contents_def deliver_def Let_def
      split: option.splits)

lemma pending_close_step_Present:
  assumes "relay w = Present"
  shows "fst (pending_close_step t w) = Inr ()"
    and "relay_contents (snd (pending_close_step t w)) =
          relay_contents w @
          (case scheduled_close_at t of
             None \<Rightarrow> []
           | Some c \<Rightarrow> [if c - now w \<le> 30000 then cancel_notice t else reminder_notice t])"
    and "db_thread (snd (pending_close_step t w)) =
          (case scheduled_close_at t of
             None \<Rightarrow> db_thread w
           | Some c \<Rightarrow> if c - now w \<le> 30000 then db_thread (cancelScheduledClose t w)
                       else db_thread w)"
  using assms
  by (auto simp: pending_close_step_def postSystemMessage_Present relay_contents_def deliver_def
        cancelScheduledClose_def split: option.splits)

lemma receiveUserReply_Present:
  assumes "relay w = Present"
  shows "receiveUserReply cfg t msg sse w =
     (case relay_attachments cfg (um_attachments msg)
             (inbound_thread_content cfg msg, content msg, []) of
        (threadContent, logContent, attachmentFiles) \<Rightarrow>
          pending_close_step t (alert_step t
            (addThreadMessageToDB t
               (row_data FROM_USER (Some (user_id t))
                  (author_username msg @ ''#'' @ author_discriminator msg) logContent 0
                  (um_id msg) (next_msg_id w)) sse
               (w\<lparr>relay_sent := relay_sent w @ [deliver (PlainText threadContent) attachmentFiles w],
                  next_msg_id := next_msg_id w + 1\<rparr>))))"
  using assms
  by (simp add: receiveUserReply_def postToThreadChannel_Present deliver_def split: prod.splits)

lemma addThreadMessageToDB_proj:
  "relay (addThreadMessageToDB t d sse w) = relay w"
  "db_thread (addThreadMessageToDB t d sse w) = db_thread w"
  "now (addThreadMessageToDB t d sse w) = now w"
  "relay_contents (addThreadMessageToDB t d sse w) = relay_contents w"
  "dm_sent (addThreadMessageToDB t d sse w) = dm_sent w"
  "relay_sent (addThreadMessageToDB t d sse w) = relay_sent w"
  "thread_messages (addThreadMessageToDB t d sse w) =
     thread_messages w @ [d\<lparr>thread_id := t_id t, tm_created_at := now w\<rparr>]"
  by (simp_all add: addThreadMessageToDB_def Let_def relay_contents_def)

subsection \<open>Alert notice\<close>

text \<open>
  C8. When an inbound message is relayed (the relay channel is present) on a thread whose
  \<^verbatim>\<open>alert_users\<close> is non-empty, the contents delivered to the relay channel are the
  relayed message, then the alert notice if some watcher other than the one who scheduled
  the close is left, then the notice about a pending close if there is one. The mention
  list of the alert notice is the one the specification words: <@A>; <@A> and <@B>;
  <@A>, <@B> and <@C>; commas, and \<open>and\<close> before the last. The id that scheduled the
  close is filtered out, and no alert notice is delivered when nothing is left. For ids
  that are well formed, the stored text of a watcher list splits back into that list.
\<close>

theorem alert_notice_mentions:
  assumes "relay w = Present" and "alert_users t = Some a" and "a \<noteq> []"
  shows "alert_mentions t a =
           spec_mentions (filter (\<lambda>i. Some i \<noteq> scheduled_close_id t) (js_split '', '' a)) \<and>
         relay_contents (snd (receiveUserReply cfg t msg sse w)) =
           relay_contents w @
           [PlainText (fst (relay_attachments cfg (um_attachments msg)
                              (inbound_thread_content cfg msg, content msg, [])))] @
           (if filter (\<lambda>i. Some i \<noteq> scheduled_close_id t) (js_split '', '' a) = [] then []
            else [alert_notice t (alert_mentions t a)]) @
           (case scheduled_close_at t of
              None \<Rightarrow> []
            | Some c \<Rightarrow> [if c - now w \<le> 30000 then cancel_notice t else reminder_notice t]) \<and>
         spec_mentions [A] = ''<@'' @ A @ ''>'' \<and>
         spec_mentions [A, B] = ''<@'' @ A @ ''> and <@'' @ B @ ''>'' \<and>
         spec_mentions [A, B, C] = ''<@'' @ A @ ''>, <@'' @ B @ ''> and <@'' @ C @ ''>'' \<and>
         (ids \<noteq> [] \<and> list_all valid_id ids \<longrightarrow>
            alert_mentions t (js_join '', '' ids) =
              spec_mentions (filter (\<lambda>i. Some i \<noteq> scheduled_close_id t) ids))"
proof -
  have enc: "js_split '', '' (js_join '', '' ids) = ids" if "ids \<noteq> []" "list_all valid_id ids"
    using that by (intro split_join_ids) (auto simp: list_all_iff valid_id_def)
  obtain tc lc fs where ra: "relay_attachments cfg (um_attachments msg)
      (inbound_thread_content cfg msg, content msg, []) = (tc, lc, fs)"
    by (cases "relay_attachments cfg (um_attachments msg)
      (inbound_thread_content cfg msg, content msg, [])") auto
  let ?w1 = "w\<lparr>relay_sent := relay_sent w @ [deliver (PlainText tc) fs w],
                next_msg_id := next_msg_id w + 1\<rparr>"
  let ?w2 = "addThreadMessageToDB t
               (row_data FROM_USER (Some (user_id t))
                  (author_username msg @ ''#'' @ author_discriminator msg) lc 0
                  (um_id msg) (next_msg_id w)) sse ?w1"
  have r2: "relay ?w2 = Present" using assms(1) by (simp add: addThreadMessageToDB_proj)
  have r3: "relay (alert_step t ?w2) = Present" using alert_step_Present(1)[OF r2] .
  have eq: "receiveUserReply cfg t msg sse w = pending_close_step t (alert_step t ?w2)"
    using receiveUserReply_Present[OF assms(1), of cfg t msg sse] ra by simp
  have m: "(alert_mentions t a = []) =
           (filter (\<lambda>i. Some i \<noteq> scheduled_close_id t) (js_split '', '' a) = [])"
    by (simp add: alert_mentions_spec spec_mentions_empty)
  have "relay_contents (snd (receiveUserReply cfg t msg sse w)) =
        relay_contents w @ [PlainText tc] @
        (if filter (\<lambda>i. Some i \<noteq> scheduled_close_id t) (js_split '', '' a) = [] then []
         else [alert_notice t (alert_mentions t a)]) @
        (case scheduled_close_at t of
           None \<Rightarrow> []
         | Some c \<Rightarrow> [if c - now w \<le> 30000 then cancel_notice t else reminder_notice t])"
    unfolding eq pending_close_step_Present(2)[OF r3] alert_step_Present(5)[OF r2]
      alert_step_Present(3)[OF r2]
    using assms(2,3) m
    by (simp add: addThreadMessageToDB_proj relay_contents_def deliver_def
          split: option.splits)
  then show ?thesis
    using ra enc by (simp add: alert_mentions_spec)
qed

theorem alert_notice_mentions_witness:
  "relay watched_world = Present \<and> alert_users watched_thread = Some ''11, 42, 12, 13'' \<and>
   relay_contents (snd (receiveUserReply sample_config watched_thread sample_message False
                          watched_world)) =
     [PlainText ''**alice#0001:** hello'',
      PlainText ''<@11>, <@12> and <@13>, there is a new message from **alice#0001**!'',
      reminder_notice watched_thread] \<and>
   list_all valid_id [''11'', ''42''] \<and>
   alert_mentions watched_thread (js_join '', '' [''11'', ''42'']) = ''<@11>''"
  using alert_notice_mentions
          [of watched_world watched_thread "''11, 42, 12, 13''" sample_config sample_message False
              "''11''" "''12''" "''13''" "[''11'', ''42'']"]
  by (simp add: watched_world_def watched_thread_def sample_world_def sample_thread_def
        sample_message_def sample_config_def relay_contents_def inbound_thread_content_def
        inbound_content_def js_trim_def white_space_def space_len_def alert_notice_def valid_id_def)

subsection \<open>Placeholder for a message with embeds only\<close>

lemma relay_attachments_shape:
  "relay_attachments cfg as (tc, lc, fs) =
     (tc @ attachment_links (filter (\<lambda>a. \<not> relayed_as_file cfg a) as),
      lc @ attachment_links as,
      fs @ filter (relayed_as_file cfg) as)"
  by (induction as arbitrary: tc lc fs) (auto simp: attachment_links_def relayed_as_file_def)

lemma alert_step_rows:
  "relay w = Present \<Longrightarrow> \<exists>rows. thread_messages (alert_step t w) = thread_messages w @ rows"
  by (auto simp: alert_step_def postSystemMessage_Present Let_def split: option.splits)

lemma pending_close_step_rows:
  "relay w = Present \<Longrightarrow>
   \<exists>rows. thread_messages (snd (pending_close_step t w)) = thread_messages w @ rows"
  by (auto simp: pending_close_step_def postSystemMessage_Present cancelScheduledClose_def
      split: option.splits)

text \<open>
  C9, as the code has it. When an inbound message whose text is empty after trimming
  (white space and line terminators of any kind, ASCII or not) and which has embeds is
  relayed, the text shown in the relay channel carries the placeholder
  in place of the text (after the speaker framing, before the links of the attachments
  that are not sent as files); the body of the transcript row is the original text of the
  message followed by the links of all attachments, without the placeholder.
\<close>

theorem embed_placeholder_displayed_only:
  assumes "relay w = Present" and "js_trim (content msg) = []" and "embeds msg \<noteq> []"
  shows "relay_contents (snd (receiveUserReply cfg t msg sse w)) ! length (relay_contents w) =
           PlainText ((if threadTimestamps cfg
                       then ''[**'' @ getTimestamp cfg (um_timestamp msg) @ ''**] '' @
                            [CHR 0xC2, CHR 0xAB] @ '' ''
                       else []) @
                      ''**'' @ author_username msg @ ''#'' @ author_discriminator msg @
                      '':** <message contains embeds>'' @
                      attachment_links (filter (\<lambda>a. \<not> relayed_as_file cfg a) (um_attachments msg))) \<and>
         message_type (thread_messages (snd (receiveUserReply cfg t msg sse w)) !
                         length (thread_messages w)) = FROM_USER \<and>
         body (thread_messages (snd (receiveUserReply cfg t msg sse w)) !
                 length (thread_messages w)) =
           content msg @ attachment_links (um_attachments msg)"
proof -
  let ?tc = "inbound_thread_content cfg msg @
             attachment_links (filter (\<lambda>a. \<not> relayed_as_file cfg a) (um_attachments msg))"
  let ?lc = "content msg @ attachment_links (um_attachments msg)"
  let ?fs = "filter (relayed_as_file cfg) (um_attachments msg)"
  let ?w1 = "w\<lparr>relay_sent := relay_sent w @ [deliver (PlainText ?tc) ?fs w],
                next_msg_id := next_msg_id w + 1\<rparr>"
  let ?d = "row_data FROM_USER (Some (user_id t))
                  (author_username msg @ ''#'' @ author_discriminator msg) ?lc 0
                  (um_id msg) (next_msg_id w)"
  let ?w2 = "addThreadMessageToDB t ?d sse ?w1"
  have eq: "receiveUserReply cfg t msg sse w = pending_close_step t (alert_step t ?w2)"
    using receiveUserReply_Present[OF assms(1), of cfg t msg sse]
    by (simp add: relay_attachments_shape)
  have r2: "relay ?w2 = Present" using assms(1) by (simp add: addThreadMessageToDB_proj)
  have r3: "relay (alert_step t ?w2) = Present" using alert_step_Present(1)[OF r2] .
  obtain rows1 where rows1: "thread_messages (alert_step t ?w2) = thread_messages ?w2 @ rows1"
    using alert_step_rows[OF r2] by blast
  obtain rows2 where rows2: "thread_messages (snd (pending_close_step t (alert_step t ?w2))) =
      thread_messages (alert_step t ?w2) @ rows2"
    using pending_close_step_rows[OF r3] by blast
  have tm: "thread_messages (snd (receiveUserReply cfg t msg sse w)) =
      thread_messages w @ ?d\<lparr>thread_id := t_id t, tm_created_at := now w\<rparr> # (rows1 @ rows2)"
    unfolding eq rows2 rows1 by (simp add: addThreadMessageToDB_proj)
  obtain ms where ms: "relay_contents (snd (receiveUserReply cfg t msg sse w)) =
      relay_contents w @ PlainText ?tc # ms"
    unfolding eq pending_close_step_Present(2)[OF r3] alert_step_Present(5)[OF r2]
    by (simp add: addThreadMessageToDB_proj relay_contents_def deliver_def)
  have tc: "inbound_thread_content cfg msg =
      (if threadTimestamps cfg
       then ''[**'' @ getTimestamp cfg (um_timestamp msg) @ ''**] '' @ [CHR 0xC2, CHR 0xAB] @ '' ''
       else []) @
      ''**'' @ author_username msg @ ''#'' @ author_discriminator msg @
      '':** <message contains embeds>''"
    using assms(2,3) by (simp add: inbound_thread_content_def inbound_content_def)
  show ?thesis
    unfolding tm ms nth_append_length
    by (simp add: tc row_data_def)
qed

theorem embed_placeholder_displayed_only_witness:
  "relay sample_world = Present \<and> js_trim (content embed_message) = [] \<and>
   embeds embed_message \<noteq> [] \<and>
   relay_contents (snd (receiveUserReply sample_config sample_thread embed_message False
                          sample_world)) ! length (relay_contents sample_world) =
     PlainText ''**alice#0001:** <message contains embeds>'' \<and>
   body (thread_messages (snd (receiveUserReply sample_config sample_thread embed_message False
                                 sample_world)) ! length (thread_messages sample_world)) = '' '' \<and>
   js_trim (content nbsp_message) = [] \<and> embeds nbsp_message \<noteq> [] \<and>
   relay_contents (snd (receiveUserReply sample_config sample_thread nbsp_message False
                          sample_world)) ! length (relay_contents sample_world) =
     PlainText ''**alice#0001:** <message contains embeds>'' \<and>
   body (thread_messages (snd (receiveUserReply sample_config sample_thread nbsp_message False
                                 sample_world)) ! length (thread_messages sample_world)) =
     [CHR 0xC2, CHR 0xA0, CHR 0xE2, CHR 0x80, CHR 0xA8, CHR 0x20]"
  using embed_placeholder_displayed_only
          [of sample_world embed_message sample_config sample_thread False]
        embed_placeholder_displayed_only
          [of sample_world nbsp_message sample_config sample_thread False]
  by (simp add: sample_world_def sample_thread_def embed_message_def nbsp_message_def
        sample_message_def sample_config_def js_trim_def white_space_def space_len_def
        attachment_links_def relay_contents_def)

text \<open>
  C9, as stated, fails for the transcript: for a message of one blank and one embed the
  relay channel shows the placeholder and the body of the row written is the blank.
\<close>

theorem embed_placeholder_not_logged_counterexample:
  "js_trim (content embed_message) = [] \<and> embeds embed_message \<noteq> [] \<and>
   relay_contents (snd (receiveUserReply sample_config sample_thread embed_message False
                          sample_world)) =
     [PlainText ''**alice#0001:** <message contains embeds>''] \<and>
   map body (thread_messages (snd (receiveUserReply sample_config sample_thread embed_message
                                     False sample_world))) = ['' ''] \<and>
   map body (thread_messages (snd (receiveUserReply sample_config sample_thread embed_message
                                     False sample_world))) \<noteq> [''<message contains embeds>'']"
  by (simp add: receiveUserReply_def postToThreadChannel.simps sample_world_def
        sample_thread_def embed_message_def sample_message_def sample_config_def js_trim_def
        white_space_def space_len_def relay_contents_def inbound_thread_content_def inbound_content_def
        addThreadMessageToDB_def row_data_def deliver_def alert_step_def pending_close_step_def
        Let_def)

subsection \<open>Closing\<close>

lemma split_hash_none: "CHR ''#'' \<notin> set s \<Longrightarrow> js_split ''#'' s = [s]"
  by (induction s) (auto simp: Let_def)

lemma split_hash_some: "CHR ''#'' \<in> set s \<Longrightarrow> 2 \<le> length (js_split ''#'' s)"
proof (induction s)
  case Nil
  then show ?case by simp
next
  case (Cons c cs)
  have "js_split ''#'' cs \<noteq> []" by (rule js_split_nonempty)
  then have "1 \<le> length (js_split ''#'' cs)" by (cases "js_split ''#'' cs") auto
  with Cons show ?case by (auto simp: Let_def)
qed

lemma rebuilt_name:
  "js_join ''#'' (butlast (js_split ''#'' nm)) @ ''#'' @ last (js_split ''#'' nm) =
     (if CHR ''#'' \<in> set nm then nm else CHR ''#'' # nm)"
proof (cases "CHR ''#'' \<in> set nm")
  case True
  let ?ps = "js_split ''#'' nm"
  have len: "2 \<le> length ?ps" using split_hash_some[OF True] .
  then have ne: "butlast ?ps \<noteq> []" by (cases ?ps rule: spec_mentions.cases) auto
  have "?ps \<noteq> []" using len by auto
  then have "js_join ''#'' (butlast ?ps @ [last ?ps]) = nm"
    by (simp add: js_join_split)
  then show ?thesis using True js_join_snoc[OF ne, of "''#''" "last ?ps"] by simp
next
  case False
  then show ?thesis by (simp add: split_hash_none)
qed

lemma deleteChannel_proj:
  "db_thread (snd (deleteChannel w)) = db_thread w"
  "thread_messages (snd (deleteChannel w)) = thread_messages w"
  "relay_sent (snd (deleteChannel w)) = relay_sent w"
  "dm_sent (snd (deleteChannel w)) = dm_sent w"
  "dm (snd (deleteChannel w)) = dm w"
  "now (snd (deleteChannel w)) = now w"
  "bot_user (snd (deleteChannel w)) = bot_user w"
  "next_msg_id (snd (deleteChannel w)) = next_msg_id w"
  "stale_cache (snd (deleteChannel w)) = stale_cache w"
  "delete_fault (snd (deleteChannel w)) = delete_fault w"
  "relay (snd (deleteChannel w)) =
     (if relay w = Present \<and> delete_fault w = None then Gone else relay w)"
  "channel_cached (snd (deleteChannel w)) =
     (if relay w = Present \<and> delete_fault w = None then stale_cache w else channel_cached w)"
  "(fst (deleteChannel w) = Inr ()) = (relay w = Present \<and> delete_fault w = None)"
  by (auto simp: deleteChannel_def split: relay_state.splits option.splits)

lemma close_effect:
  assumes "silent \<or> (\<forall>e. relay w \<noteq> Faulty e)"
    and "closer = None \<and> (silent \<or> relay w = Present) \<longrightarrow>
           scheduled_close_name (db_thread w) \<noteq> None"
  shows "(fst (close t closer silent sse w) = Inr ()) =
           (channel_cached w \<longrightarrow> relay w = Present \<and> delete_fault w = None) \<and>
    status (db_thread (snd (close t closer silent sse w))) = CLOSED \<and>
    scheduled_close_at (db_thread (snd (close t closer silent sse w))) = Some (now w) \<and>
    alert_users (db_thread (snd (close t closer silent sse w))) = None \<and>
    staff_role_overrides (db_thread (snd (close t closer silent sse w))) = None \<and>
    scheduled_close_id (db_thread (snd (close t closer silent sse w))) =
           (case closer of
              Some a \<Rightarrow> Some (u_id a)
            | None \<Rightarrow> if silent \<or> relay w = Present then scheduled_close_id (db_thread w)
                       else Some (u_id (bot_user w))) \<and>
    scheduled_close_name (db_thread (snd (close t closer silent sse w))) =
           (case closer of
              Some a \<Rightarrow> Some (username a @ ''#'' @ discriminator a)
            | None \<Rightarrow>
                if silent \<or> relay w = Present
                then (case scheduled_close_name (db_thread w) of
                        None \<Rightarrow> None
                      | Some nm \<Rightarrow> Some (if CHR ''#'' \<in> set nm then nm else CHR ''#'' # nm))
                else Some (username (bot_user w) @ ''#'' @ discriminator (bot_user w))) \<and>
    relay (snd (close t closer silent sse w)) =
      (if channel_cached w \<and> relay w = Present \<and> delete_fault w = None then Gone else relay w) \<and>
    channel_cached (snd (close t closer silent sse w)) =
      (if channel_cached w \<and> relay w = Present \<and> delete_fault w = None then stale_cache w
       else channel_cached w) \<and>
    stale_cache (snd (close t closer silent sse w)) = stale_cache w \<and>
    delete_fault (snd (close t closer silent sse w)) = delete_fault w \<and>
    relay_contents (snd (close t closer silent sse w)) =
           relay_contents w @ (if \<not> silent \<and> relay w = Present then [closing_notice] else []) \<and>
    thread_messages (snd (close t closer silent sse w)) = thread_messages w \<and>
    dm_sent (snd (close t closer silent sse w)) = dm_sent w \<and>
    now (snd (close t closer silent sse w)) = now w \<and>
    bot_user (snd (close t closer silent sse w)) = bot_user w"
proof -
  have nm: "\<exists>nm. scheduled_close_name (db_thread w) = Some nm"
    if "closer = None" "silent \<or> relay w = Present"
    using that assms(2) by auto
  have nf: "\<not> silent \<Longrightarrow> relay w = Present \<or> relay w = Gone"
    using assms(1) by (cases "relay w") auto
  note defs = close.simps postToThreadChannel.simps closing_author_def Let_def relay_contents_def
    deliver_def deleteChannel_proj
  consider "silent" | "\<not> silent" "relay w = Present" | "\<not> silent" "relay w = Gone"
    using nf by blast
  then show ?thesis
  proof cases
    case 1
    show ?thesis
    proof (cases closer)
      case (Some a)
      with 1 show ?thesis by (simp add: defs)
    next
      case None
      with 1 nm obtain nm where "scheduled_close_name (db_thread w) = Some nm" by auto
      with None 1 show ?thesis using rebuilt_name[of nm] by (simp add: defs)
    qed
  next
    case 2
    show ?thesis
    proof (cases closer)
      case (Some a)
      with 2 show ?thesis by (simp add: defs)
    next
      case None
      with 2 nm obtain nm where "scheduled_close_name (db_thread w) = Some nm" by auto
      with None 2 show ?thesis using rebuilt_name[of nm] by (simp add: defs)
    qed
  next
    case 3
    show ?thesis
    proof (cases closer)
      case (Some a)
      with 3 show ?thesis by (simp add: defs)
    next
      case None
      with 3 show ?thesis
        using rebuilt_name[of "username (bot_user w) @ ''#'' @ discriminator (bot_user w)"]
        by (simp add: defs)
    qed
  qed
qed

text \<open>
  C5, as the code has it. When the notice of a close that is not silent does not meet a
  gateway error other than channel-not-found, and the stored row names who scheduled the
  close in case no closer is given and the notice is not answered channel-not-found, the
  stored row afterwards has status Closed, the current time as close time, an actor name,
  and \<^verbatim>\<open>alert_users\<close> and \<^verbatim>\<open>staff_role_overrides\<close> null. With a closer the actor is
  the closer's id and name#discriminator. Without a closer, and with the close silent or
  its notice delivered, the actor is rebuilt from the \<^verbatim>\<open>scheduled_close_id\<close> and
  \<^verbatim>\<open>scheduled_close_name\<close> stored before the call (the name comes back unchanged when it
  contains a #, and with a # in front otherwise). The call returns normally exactly when
  \<^verbatim>\<open>bot.getChannel\<close> does not find the channel or the deletion succeeds; the row is
  written before the deletion in either case.
\<close>

theorem close_persists_closed:
  assumes "silent \<or> (\<forall>e. relay w \<noteq> Faulty e)"
    and "closer = None \<and> (silent \<or> relay w = Present) \<longrightarrow>
           scheduled_close_name (db_thread w) \<noteq> None"
  shows "status (db_thread (snd (close t closer silent sse w))) = CLOSED \<and>
         scheduled_close_at (db_thread (snd (close t closer silent sse w))) = Some (now w) \<and>
         scheduled_close_name (db_thread (snd (close t closer silent sse w))) \<noteq> None \<and>
         alert_users (db_thread (snd (close t closer silent sse w))) = None \<and>
         staff_role_overrides (db_thread (snd (close t closer silent sse w))) = None \<and>
         (case closer of
            Some a \<Rightarrow>
              scheduled_close_id (db_thread (snd (close t closer silent sse w))) = Some (u_id a) \<and>
              scheduled_close_name (db_thread (snd (close t closer silent sse w))) =
                Some (username a @ ''#'' @ discriminator a)
          | None \<Rightarrow>
              silent \<or> relay w = Present \<longrightarrow>
                scheduled_close_id (db_thread (snd (close t closer silent sse w))) =
                  scheduled_close_id (db_thread w) \<and>
                (\<forall>nm. scheduled_close_name (db_thread w) = Some nm \<longrightarrow>
                   scheduled_close_name (db_thread (snd (close t closer silent sse w))) =
                     Some (if CHR ''#'' \<in> set nm then nm else CHR ''#'' # nm))) \<and>
         ((fst (close t closer silent sse w) = Inr ()) =
            (channel_cached w \<longrightarrow> relay w = Present \<and> delete_fault w = None))"
proof -
  note e = close_effect[OF assms, of t sse]
  have "scheduled_close_name (db_thread (snd (close t closer silent sse w))) \<noteq> None"
  proof (cases closer)
    case None
    show ?thesis
    proof (cases "silent \<or> relay w = Present")
      case True
      with None assms(2) obtain nm where "scheduled_close_name (db_thread w) = Some nm" by auto
      with None True e show ?thesis by auto
    next
      case False
      with None e show ?thesis by auto
    qed
  next
    case (Some a)
    with e show ?thesis by auto
  qed
  with e show ?thesis by (auto split: option.splits)
qed

theorem close_persists_closed_witness:
  "scheduled_close_name (db_thread watched_world) \<noteq> None \<and>
   status (db_thread watched_world) = OPEN \<and>
   fst (close watched_thread None True False watched_world) = Inr () \<and>
   status (db_thread (snd (close watched_thread None True False watched_world))) = CLOSED \<and>
   scheduled_close_at (db_thread (snd (close watched_thread None True False watched_world))) =
     Some 1000000 \<and>
   scheduled_close_id (db_thread (snd (close watched_thread None True False watched_world))) =
     Some ''42'' \<and>
   scheduled_close_name (db_thread (snd (close watched_thread None True False watched_world))) =
     Some ''bob#1234'' \<and>
   alert_users (db_thread (snd (close watched_thread None True False watched_world))) = None \<and>
   status (db_thread (snd (close sample_thread (Some sample_operator) False False sample_world)))
     = CLOSED \<and>
   scheduled_close_name
     (db_thread (snd (close sample_thread (Some sample_operator) False False sample_world)))
     = Some ''bob#1234''"
  using close_persists_closed
          [where silent = True and w = watched_world and closer = None and t = watched_thread
             and sse = False]
        close_persists_closed
          [where silent = False and w = sample_world and closer = "Some sample_operator"
             and t = sample_thread and sse = False]
  by (simp add: watched_world_def watched_thread_def sample_world_def sample_thread_def
        sample_operator_def)

text \<open>
  C5, as stated, fails in three ways. When the gateway answers the closing notice with an
  error other than channel-not-found, the close raises it and the row keeps status Open.
  A close without closer on a thread with no scheduled close raises a TypeError and the
  row keeps status Open. A close without closer whose notice is answered
  channel-not-found records the bot, which the automatic close has just written to the
  row, and not the operator 42 who had scheduled the close.
\<close>

theorem close_not_persisted_counterexample:
  "status (db_thread fault_world) = OPEN \<and>
   fst (close sample_thread (Some sample_operator) False False fault_world) =
     Inl (Error ''Internal Server Error'') \<and>
   status (db_thread (snd (close sample_thread (Some sample_operator) False False fault_world)))
     = OPEN \<and>
   fst (close sample_thread None True False sample_world) = Inl TypeError \<and>
   status (db_thread (snd (close sample_thread None True False sample_world))) = OPEN \<and>
   scheduled_close_id (db_thread gone_watched_world) = Some ''42'' \<and>
   scheduled_close_id (db_thread (snd (close watched_thread None False False gone_watched_world)))
     = Some ''1'' \<and>
   scheduled_close_name (db_thread (snd (close watched_thread None False False gone_watched_world)))
     = Some ''modmail#0000''"
  by (simp add: fault_world_def gone_watched_world_def watched_world_def watched_thread_def
        sample_world_def sample_thread_def sample_bot_def close.simps postToThreadChannel.simps
        closing_author_def closing_notice_def Let_def js_split.simps)




subsection \<open>Relay channel gone\<close>

lemma auto_close_effect:
  assumes "relay w = Gone"
  shows "fst (postToThreadChannel t text file w) = Inr None \<and>
         status (db_thread (snd (postToThreadChannel t text file w))) = CLOSED \<and>
         thread_messages (snd (postToThreadChannel t text file w)) = thread_messages w \<and>
         relay_contents (snd (postToThreadChannel t text file w)) = relay_contents w \<and>
         dm_sent (snd (postToThreadChannel t text file w)) = dm_sent w \<and>
         dm (snd (postToThreadChannel t text file w)) = dm w \<and>
         next_msg_id (snd (postToThreadChannel t text file w)) = next_msg_id w"
  using assms
  by (simp add: postToThreadChannel.simps close.simps closing_author_def Let_def
        relay_contents_def deleteChannel_proj)

lemma postSystemMessage_Gone:
  "relay w = Gone \<Longrightarrow>
   postSystemMessage t text file w = (Inr None, snd (postToThreadChannel t text file w))"
  using auto_close_effect[of w t "text" "file"]
  by (cases "postToThreadChannel t text file w") (simp add: postSystemMessage_def)

lemma postToUser_cases:
  "postToUser t text file w =
     (if dm w = DmOpen
      then (Inr (deliver text file w),
            w\<lparr>dm_sent := dm_sent w @ [deliver text file w], next_msg_id := next_msg_id w + 1\<rparr>)
      else (Inl (case dm w of
                   DmFault e \<Rightarrow> Error e
                 | _ \<Rightarrow> Error (''Could not open DMs with the user. They may have blocked the bot '' @
                              ''or set their privacy settings higher.'')), w))"
  by (cases "dm w") (simp_all add: postToUser_def)

text \<open>
  C2. When the relay channel is gone, an outbound reply and an inbound message both leave
  the thread with status Closed in the store, write no transcript row and deliver nothing
  to the relay channel (the close is silent). A direct message of the reply that was
  delivered stays delivered; the remote user of an inbound message is told about the
  close when the direct-message channel is open.
\<close>

theorem relay_gone_closes_thread:
  assumes "relay w = Gone"
  shows "fst (replyToUser cfg t moderator text replyAttachments isAnonymous sse w) = Inr () \<and>
         status (db_thread (snd (replyToUser cfg t moderator text replyAttachments isAnonymous sse w)))
           = CLOSED \<and>
         thread_messages (snd (replyToUser cfg t moderator text replyAttachments isAnonymous sse w))
           = thread_messages w \<and>
         relay_contents (snd (replyToUser cfg t moderator text replyAttachments isAnonymous sse w))
           = relay_contents w \<and>
         dm_contents (snd (replyToUser cfg t moderator text replyAttachments isAnonymous sse w))
           = dm_contents w @
             (if dm w = DmOpen
              then [PlainText (reply_dm_content cfg t moderator isAnonymous text)] else []) \<and>
         status (db_thread (snd (receiveUserReply cfg t msg sse w))) = CLOSED \<and>
         thread_messages (snd (receiveUserReply cfg t msg sse w)) = thread_messages w \<and>
         relay_contents (snd (receiveUserReply cfg t msg sse w)) = relay_contents w \<and>
         dm_contents (snd (receiveUserReply cfg t msg sse w))
           = dm_contents w @ (if dm w = DmOpen then [closed_notice_to_user] else [])"
proof -
  obtain mu lmu where names: "reply_names cfg t moderator isAnonymous = (mu, lmu)"
    by (cases "reply_names cfg t moderator isAnonymous") auto
  have out: "fst (replyToUser cfg t moderator text replyAttachments isAnonymous sse w) = Inr () \<and>
         status (db_thread (snd (replyToUser cfg t moderator text replyAttachments isAnonymous sse w)))
           = CLOSED \<and>
         thread_messages (snd (replyToUser cfg t moderator text replyAttachments isAnonymous sse w))
           = thread_messages w \<and>
         relay_contents (snd (replyToUser cfg t moderator text replyAttachments isAnonymous sse w))
           = relay_contents w \<and>
         dm_contents (snd (replyToUser cfg t moderator text replyAttachments isAnonymous sse w))
           = dm_contents w @
             (if dm w = DmOpen
              then [PlainText (reply_dm_content cfg t moderator isAnonymous text)] else [])"
  proof (cases "dm w = DmOpen")
    case True
    let ?w1 = "w\<lparr>dm_sent := dm_sent w @ [deliver (PlainText (''**'' @ mu @ '':** '' @ text)) replyAttachments w],
                  next_msg_id := next_msg_id w + 1\<rparr>"
    have g: "relay ?w1 = Gone" using assms by simp
    note ac = auto_close_effect[OF g, of t "PlainText (reply_thread_content cfg lmu text w)" replyAttachments]
    obtain r w2 where p: "postToThreadChannel t (PlainText (reply_thread_content cfg lmu text w))
        replyAttachments ?w1 = (r, w2)"
      by (cases "postToThreadChannel t (PlainText (reply_thread_content cfg lmu text w))
        replyAttachments ?w1") auto
    with ac have r: "r = Inr None" by simp
    show ?thesis
      using True names p r ac
      by (simp add: replyToUser_def postToUser_cases Let_def reply_dm_content_def
            dm_contents_def relay_contents_def deliver_def)
  next
    case False
    obtain e where e: "postToUser t (PlainText (''**'' @ mu @ '':** '' @ text)) replyAttachments w
        = (Inl e, w)"
      using False by (simp add: postToUser_cases)
    note ac = auto_close_effect[OF assms, of t "dm_error_notice e" "[]"]
    show ?thesis
      using False names e ac postSystemMessage_Gone[OF assms, of t "dm_error_notice e" "[]"]
      by (simp add: replyToUser_def Let_def dm_contents_def)
  qed
  obtain tc lc fs where ra: "relay_attachments cfg (um_attachments msg)
      (inbound_thread_content cfg msg, content msg, []) = (tc, lc, fs)"
    by (cases "relay_attachments cfg (um_attachments msg)
      (inbound_thread_content cfg msg, content msg, [])") auto
  note ac = auto_close_effect[OF assms, of t "PlainText tc" fs]
  obtain r w1 where p: "postToThreadChannel t (PlainText tc) fs w = (r, w1)"
    by (cases "postToThreadChannel t (PlainText tc) fs w") auto
  with ac have r: "r = Inr None" by simp
  have "status (db_thread (snd (receiveUserReply cfg t msg sse w))) = CLOSED \<and>
         thread_messages (snd (receiveUserReply cfg t msg sse w)) = thread_messages w \<and>
         relay_contents (snd (receiveUserReply cfg t msg sse w)) = relay_contents w \<and>
         dm_contents (snd (receiveUserReply cfg t msg sse w))
           = dm_contents w @ (if dm w = DmOpen then [closed_notice_to_user] else [])"
    using ra p r ac
    by (cases "dm w")
       (simp_all add: receiveUserReply_def createDirectMessage_def dm_contents_def
          relay_contents_def deliver_def)
  with out show ?thesis by simp
qed

theorem relay_gone_closes_thread_witness:
  "relay gone_world = Gone \<and>
   status (db_thread (snd (replyToUser sample_config sample_thread sample_member ''hi'' [] False
                             False gone_world))) = CLOSED \<and>
   thread_messages (snd (replyToUser sample_config sample_thread sample_member ''hi'' [] False
                             False gone_world)) = [] \<and>
   dm_contents (snd (replyToUser sample_config sample_thread sample_member ''hi'' [] False
                             False gone_world)) = [PlainText ''**bob:** hi''] \<and>
   status (db_thread (snd (receiveUserReply sample_config sample_thread sample_message False
                             gone_world))) = CLOSED \<and>
   thread_messages (snd (receiveUserReply sample_config sample_thread sample_message False
                             gone_world)) = []"
  using relay_gone_closes_thread
          [where w = gone_world and cfg = sample_config and t = sample_thread
             and moderator = sample_member and replyAttachments = "[]" and isAnonymous = False
             and sse = False and msg = sample_message, of "''hi''"]
  by (simp add: gone_world_def sample_world_def sample_thread_def sample_member_def
        sample_config_def reply_dm_content_def reply_names_def getMainRole_def
        getStaffRoleOverride_def truthy_def dm_contents_def Let_def)

subsection \<open>Failed direct message\<close>

text \<open>
  C1. When the direct message of an outbound reply fails with error \<open>e\<close>, nothing is
  delivered to the remote user, the only thing sent to the relay channel is the system
  notice of the failure (delivered whenever the relay channel is present; the reply itself
  is never sent there), and the only transcript row written is the System row of that
  notice: no row is written for the reply. With the relay channel present the operation
  then returns normally.
\<close>

theorem reply_aborts_when_dm_fails:
  assumes "fst (postToUser t (PlainText (reply_dm_content cfg t moderator isAnonymous text))
                  replyAttachments w) = Inl e"
  shows "dm_sent (snd (replyToUser cfg t moderator text replyAttachments isAnonymous sse w)) =
           dm_sent w \<and>
         relay_contents (snd (replyToUser cfg t moderator text replyAttachments isAnonymous sse w)) =
           relay_contents w @ (if relay w = Present then [dm_error_notice e] else []) \<and>
         thread_messages (snd (replyToUser cfg t moderator text replyAttachments isAnonymous sse w)) =
           thread_messages w @
           (if relay w = Present
            then [(row_data SYSTEM None []
                     (''Error while replying to user: '' @ error_message e) 0
                     (next_msg_id w) (next_msg_id w))
                    \<lparr>thread_id := t_id t, tm_created_at := now w\<rparr>]
            else []) \<and>
         (relay w = Present \<longrightarrow>
            fst (replyToUser cfg t moderator text replyAttachments isAnonymous sse w) = Inr ())"
proof -
  obtain mu lmu where names: "reply_names cfg t moderator isAnonymous = (mu, lmu)"
    by (cases "reply_names cfg t moderator isAnonymous") auto
  have closed: "dm w \<noteq> DmOpen"
    using assms by (auto simp: postToUser_cases)
  then have pu: "postToUser t (PlainText (''**'' @ mu @ '':** '' @ text)) replyAttachments w =
      (Inl e, w)"
    using assms names by (simp add: postToUser_cases reply_dm_content_def)
  have eq: "replyToUser cfg t moderator text replyAttachments isAnonymous sse w =
      (case postSystemMessage t (dm_error_notice e) [] w of
         (Inl e', w2) \<Rightarrow> (Inl e', w2)
       | (Inr _, w2) \<Rightarrow> (Inr (), w2))"
    using names pu by (simp add: replyToUser_def Let_def)
  show ?thesis
  proof (cases "relay w")
    case Present
    then show ?thesis
      unfolding eq
      by (simp add: postSystemMessage_Present relay_contents_def deliver_def dm_error_notice_def
            system_body_def)
  next
    case Gone
    then show ?thesis
      unfolding eq
      using auto_close_effect[OF Gone, of t "dm_error_notice e" "[]"]
      by (simp add: postSystemMessage_Gone)
  next
    case (Faulty m)
    then show ?thesis
      unfolding eq
      by (simp add: postSystemMessage_def postToThreadChannel.simps)
  qed
qed

theorem reply_aborts_when_dm_fails_witness:
  "fst (postToUser sample_thread
          (PlainText (reply_dm_content sample_config sample_thread sample_member False ''hi''))
          [] blocked_world) =
     Inl (Error (''Could not open DMs with the user. They may have blocked the bot '' @
                 ''or set their privacy settings higher.'')) \<and>
   relay blocked_world = Present \<and>
   dm_sent (snd (replyToUser sample_config sample_thread sample_member ''hi'' [] False False
                   blocked_world)) = [] \<and>
   relay_contents (snd (replyToUser sample_config sample_thread sample_member ''hi'' [] False False
                          blocked_world)) =
     [PlainText (''Error while replying to user: Could not open DMs with the user. '' @
                 ''They may have blocked the bot or set their privacy settings higher.'')] \<and>
   map message_type
     (thread_messages (snd (replyToUser sample_config sample_thread sample_member ''hi'' [] False
                              False blocked_world))) = [SYSTEM] \<and>
   fst (replyToUser sample_config sample_thread sample_member ''hi'' [] False False blocked_world) =
     Inr ()"
  using reply_aborts_when_dm_fails
          [where w = blocked_world and cfg = sample_config and t = sample_thread
             and moderator = sample_member and replyAttachments = "[]" and isAnonymous = False
             and sse = False
             and e = "Error (''Could not open DMs with the user. They may have blocked the bot '' @
                             ''or set their privacy settings higher.'')",
           of "''hi''"]
  by (simp add: blocked_world_def sample_world_def postToUser_def dm_error_notice_def
        error_message_def row_data_def relay_contents_def)

subsection \<open>Activity on a thread with a pending close\<close>

lemma replyToUser_delivered:
  assumes "dm w = DmOpen" and "relay w = Present"
  shows "fst (replyToUser cfg t moderator text replyAttachments isAnonymous sse w) = Inr () \<and>
         db_thread (snd (replyToUser cfg t moderator text replyAttachments isAnonymous sse w)) =
           (if scheduled_close_at t \<noteq> None then db_thread (cancelScheduledClose t w)
            else db_thread w) \<and>
         relay_contents (snd (replyToUser cfg t moderator text replyAttachments isAnonymous sse w)) =
           relay_contents w @
           PlainText (reply_thread_content cfg (snd (reply_names cfg t moderator isAnonymous)) text w) #
           (if scheduled_close_at t \<noteq> None then [reply_cancel_notice] else []) \<and>
         dm_contents (snd (replyToUser cfg t moderator text replyAttachments isAnonymous sse w)) =
           dm_contents w @ [PlainText (reply_dm_content cfg t moderator isAnonymous text)]"
proof -
  obtain mu lmu where names: "reply_names cfg t moderator isAnonymous = (mu, lmu)"
    by (cases "reply_names cfg t moderator isAnonymous") auto
  show ?thesis
    using assms names
    by (simp add: replyToUser_def postToUser_cases postToThreadChannel_Present
          postSystemMessage_Present addThreadMessageToDB_def cancelScheduledClose_def Let_def
          relay_contents_def dm_contents_def deliver_def reply_dm_content_def
          reply_thread_content_def)
qed

text \<open>
  C3, as the code has it. On a thread whose \<^verbatim>\<open>scheduled_close_at\<close> is set and whose relay
  channel is present: an inbound message scheduled to close at most 30 seconds from now
  clears the three scheduled-close fields in the store and is followed by the cancellation
  notice; an inbound message with a later close time leaves the stored row as it is and is
  followed by the reminder notice only; an outbound reply that was delivered clears the
  three fields and is followed by its cancellation notice whatever the close time is.
\<close>

theorem activity_on_pending_close:
  assumes "relay w = Present" and "scheduled_close_at t = Some closedAt"
  shows "(closedAt - now w \<le> 30000 \<longrightarrow>
            fst (receiveUserReply cfg t msg sse w) = Inr () \<and>
            scheduled_all_null (db_thread (snd (receiveUserReply cfg t msg sse w))) \<and>
            db_thread (snd (receiveUserReply cfg t msg sse w)) =
              db_thread (cancelScheduledClose t w) \<and>
            relay_contents (snd (receiveUserReply cfg t msg sse w)) =
              relay_contents w @
              PlainText (fst (relay_attachments cfg (um_attachments msg)
                                (inbound_thread_content cfg msg, content msg, []))) #
              alert_contents t @ [cancel_notice t]) \<and>
         (30000 < closedAt - now w \<longrightarrow>
            fst (receiveUserReply cfg t msg sse w) = Inr () \<and>
            db_thread (snd (receiveUserReply cfg t msg sse w)) = db_thread w \<and>
            relay_contents (snd (receiveUserReply cfg t msg sse w)) =
              relay_contents w @
              PlainText (fst (relay_attachments cfg (um_attachments msg)
                                (inbound_thread_content cfg msg, content msg, []))) #
              alert_contents t @ [reminder_notice t]) \<and>
         (dm w = DmOpen \<longrightarrow>
            fst (replyToUser cfg t moderator text replyAttachments isAnonymous sse w) = Inr () \<and>
            scheduled_all_null
              (db_thread (snd (replyToUser cfg t moderator text replyAttachments isAnonymous sse w))) \<and>
            db_thread (snd (replyToUser cfg t moderator text replyAttachments isAnonymous sse w)) =
              db_thread (cancelScheduledClose t w) \<and>
            relay_contents (snd (replyToUser cfg t moderator text replyAttachments isAnonymous sse w)) =
              relay_contents w @
              [PlainText (reply_thread_content cfg (snd (reply_names cfg t moderator isAnonymous))
                            text w),
               reply_cancel_notice])"
proof -
  obtain tc lc fs where ra: "relay_attachments cfg (um_attachments msg)
      (inbound_thread_content cfg msg, content msg, []) = (tc, lc, fs)"
    by (cases "relay_attachments cfg (um_attachments msg)
      (inbound_thread_content cfg msg, content msg, [])") auto
  let ?w1 = "w\<lparr>relay_sent := relay_sent w @ [deliver (PlainText tc) fs w],
                next_msg_id := next_msg_id w + 1\<rparr>"
  let ?w2 = "addThreadMessageToDB t
               (row_data FROM_USER (Some (user_id t))
                  (author_username msg @ ''#'' @ author_discriminator msg) lc 0
                  (um_id msg) (next_msg_id w)) sse ?w1"
  have r2: "relay ?w2 = Present" using assms(1) by (simp add: addThreadMessageToDB_proj)
  have r3: "relay (alert_step t ?w2) = Present" using alert_step_Present(1)[OF r2] .
  have eq: "receiveUserReply cfg t msg sse w = pending_close_step t (alert_step t ?w2)"
    using receiveUserReply_Present[OF assms(1), of cfg t msg sse] ra by simp
  have db: "db_thread (alert_step t ?w2) = db_thread w"
    using alert_step_Present(2)[OF r2] by (simp add: addThreadMessageToDB_proj)
  have nw: "now (alert_step t ?w2) = now w"
    using alert_step_Present(3)[OF r2] by (simp add: addThreadMessageToDB_proj)
  have rc: "relay_contents (alert_step t ?w2) = relay_contents w @ PlainText tc # alert_contents t"
    using alert_step_Present(5)[OF r2]
    by (simp add: addThreadMessageToDB_proj alert_contents_def relay_contents_def deliver_def)
  have inbound: "fst (receiveUserReply cfg t msg sse w) = Inr () \<and>
      db_thread (snd (receiveUserReply cfg t msg sse w)) =
        (if closedAt - now w \<le> 30000 then db_thread (cancelScheduledClose t w) else db_thread w) \<and>
      relay_contents (snd (receiveUserReply cfg t msg sse w)) =
        relay_contents w @ PlainText tc # alert_contents t @
        [if closedAt - now w \<le> 30000 then cancel_notice t else reminder_notice t]"
    unfolding eq
    using pending_close_step_Present[OF r3, of t] assms(2) db nw rc
    by (simp add: cancelScheduledClose_def)
  have null: "scheduled_all_null (db_thread (cancelScheduledClose t w))"
    by (rule cancelScheduledClose_all_null)
  show ?thesis
    using inbound ra null replyToUser_delivered[OF _ assms(1), of cfg t moderator "text"
        replyAttachments isAnonymous sse] assms(2)
    by auto
qed

theorem activity_on_pending_close_witness:
  "relay watched_world = Present \<and> scheduled_close_at watched_thread = Some 5000000 \<and>
   (30000::int) < 5000000 - now watched_world \<and> dm watched_world = DmOpen \<and>
   db_thread (snd (receiveUserReply sample_config watched_thread sample_message False
                     watched_world)) = db_thread watched_world \<and>
   last (relay_contents (snd (receiveUserReply sample_config watched_thread sample_message False
                                watched_world))) = reminder_notice watched_thread \<and>
   scheduled_all_null
     (db_thread (snd (replyToUser sample_config watched_thread sample_member ''hi'' [] False False
                        watched_world))) \<and>
   relay soon_world = Present \<and> scheduled_close_at soon_thread = Some 1010000 \<and>
   1010000 - now soon_world \<le> (30000::int) \<and>
   scheduled_all_null
     (db_thread (snd (receiveUserReply sample_config soon_thread sample_message False
                        soon_world))) \<and>
   last (relay_contents (snd (receiveUserReply sample_config soon_thread sample_message False
                                soon_world))) = cancel_notice soon_thread"
  using activity_on_pending_close
          [where w = watched_world and t = watched_thread and closedAt = 5000000
             and cfg = sample_config and msg = sample_message and sse = False
             and moderator = sample_member and replyAttachments = "[]" and isAnonymous = False,
           of "''hi''"]
        activity_on_pending_close
          [where w = soon_world and t = soon_thread and closedAt = 1010000
             and cfg = sample_config and msg = sample_message and sse = False
             and moderator = sample_member and replyAttachments = "[]" and isAnonymous = False,
           of "''hi''"]
  by (simp add: watched_world_def watched_thread_def soon_world_def soon_thread_def
        sample_world_def sample_thread_def cancelScheduledClose_all_null relay_contents_def)

text \<open>
  C3, as stated, fails for an outbound reply: with the close scheduled 4000 seconds from
  now, the reply clears the scheduled close and posts the cancellation notice instead of
  leaving the schedule and posting a reminder.
\<close>

theorem reply_cancels_distant_close_counterexample:
  "scheduled_close_at watched_thread = Some 5000000 \<and> now watched_world = 1000000 \<and>
   \<not> (5000000 - 1000000 \<le> (30000::int)) \<and>
   scheduled_all_set (db_thread watched_world) \<and>
   scheduled_all_null
     (db_thread (snd (replyToUser sample_config watched_thread sample_member ''hi'' [] False False
                        watched_world))) \<and>
   relay_contents (snd (replyToUser sample_config watched_thread sample_member ''hi'' [] False False
                          watched_world)) =
     [PlainText ''**bob:** hi'', reply_cancel_notice]"
  by (simp add: replyToUser_def postToUser_def postToThreadChannel.simps postSystemMessage_def
        addThreadMessageToDB_def cancelScheduledClose_def watched_world_def watched_thread_def
        sample_world_def sample_thread_def sample_member_def sample_config_def
        reply_names_def getMainRole_def getStaffRoleOverride_def truthy_def
        reply_thread_content_def relay_contents_def deliver_def scheduled_all_null_def
        scheduled_all_set_def Let_def)

end
